theory Spec2Isabelle
  imports Complex_Main
begin

section \<open>Data model of \<^verbatim>\<open>src/index.ts\<close>\<close>

text \<open>
  The script logs into a web application, fetches a user list from a JSON endpoint,
  scrapes one more user from a rendered settings page and writes both to a file.
  Everything outside the script (the file system, the remote site, and the libraries
  tough-cookie, cheerio, puppeteer and \<^verbatim>\<open>fetch\<close>) is the environment: it is a
  parameter of the model, the record \<open>world\<close> below, and every theorem holds for all
  worlds. What the script itself does (its checks, its throws, the order of its calls,
  the records it builds) is translated line by line, and every awaited call of a library
  has the branch in which its promise rejects.
\<close>

text \<open>
  \<^verbatim>\<open>interface User\<close>: four fields of type \<^verbatim>\<open>string | undefined\<close>; \<open>None\<close> is
  \<^verbatim>\<open>undefined\<close>. The field \<^verbatim>\<open>id\<close> is \<open>id_field\<close> here.
\<close>

record User =
  id_field :: "string option"
  firstName :: "string option"
  lastName :: "string option"
  email :: "string option"

text \<open>
  A tough-cookie \<^verbatim>\<open>Cookie\<close>, with the fields the script reads. \<^verbatim>\<open>expires\<close> is
  a \<^verbatim>\<open>Date\<close> (here its time value, a whole number of milliseconds since the epoch,
  at most 8.64e15 in absolute value) or the string \<^verbatim>\<open>"Infinity"\<close>. \<open>None\<close> is \<^verbatim>\<open>null\<close> or \<^verbatim>\<open>undefined\<close>. The field
  \<^verbatim>\<open>value\<close> is \<open>value_field\<close>.
\<close>

datatype expiry = Infinity | Date int

record Cookie =
  key :: "string option"
  value_field :: string
  domain :: "string option"
  path :: "string option"
  expires :: expiry
  secure :: bool
  httpOnly :: bool

text \<open>
  Puppeteer's \<^verbatim>\<open>CookieParam\<close>. \<^verbatim>\<open>expires\<close> is a number: a double, held here
  as the rational it denotes.
\<close>

record CookieParam =
  name :: "string option"
  value_field :: string
  domain :: "string option"
  path :: "string option"
  expires :: rat
  secure :: bool
  httpOnly :: bool

text \<open>An element of a cheerio selection: its tag name and its attributes.\<close>

record element =
  tagName :: string
  attribs :: "(string \<times> string) list"

text \<open>
  A \<^verbatim>\<open>fetch\<close> request and response. \<open>body\<close> holds the entries given to
  \<^verbatim>\<open>URLSearchParams\<close> and \<open>redirect\<close> is \<^verbatim>\<open>follow\<close> unless the script sets it; \<open>text_body\<close> is what \<^verbatim>\<open>.text()\<close> resolves to and \<open>json\<close> what
  \<^verbatim>\<open>.json()\<close> resolves to, at the type the script declares for it
  (\<^verbatim>\<open>User[]\<close>, unchecked); either is \<open>None\<close> when the call rejects (for
  \<^verbatim>\<open>.json()\<close>, a body that is not JSON). \<open>getSetCookie\<close> is the list of Set-Cookie
  header values.
\<close>

record Request =
  url :: string
  method_field :: string
  headers :: "(string \<times> string) list"
  body :: "(string \<times> string) list"
  redirect :: string

record Response =
  status :: nat
  getSetCookie :: "string list"
  text_body :: "string option"
  json :: "User list option"

text \<open>\<^verbatim>\<open>Response.ok\<close>: the status is in the range 200 to 299.\<close>

definition ok :: "Response \<Rightarrow> bool" where
  "ok r = (200 \<le> status r \<and> status r \<le> 299)"

text \<open>What the script does to the outside, in order: each call is recorded when it is made,
  whether or not it completes.\<close>

datatype event =
    ReadFile string
  | WriteFile string
  | Fetch Request
  | Launch
  | NewPage
  | PageSetCookie CookieParam
  | Goto string
  | WaitForSelector string
  | Content
  | Close

text \<open>
  The errors. \<open>Error msg\<close> is the script's own \<^verbatim>\<open>throw new Error(msg)\<close>. The others
  are rejections of awaited library calls: \<^verbatim>\<open>readFile\<close> and
  \<^verbatim>\<open>CookieJar.fromJSON\<close> (caught in \<^verbatim>\<open>loadCookies\<close>), \<^verbatim>\<open>writeFile\<close> on a
  path, \<^verbatim>\<open>fetch\<close> of a request, \<^verbatim>\<open>.text()\<close> and \<^verbatim>\<open>.json()\<close> of a response,
  \<^verbatim>\<open>cookieJar.setCookie\<close> of a header, and a puppeteer call (for
  \<^verbatim>\<open>waitForSelector\<close>, its timeout).
\<close>

datatype error =
    Error string
  | ReadFileFailed
  | FromJSONFailed
  | WriteFileFailed string
  | FetchFailed Request
  | TextFailed
  | JsonFailed
  | SetCookieRejected string
  | BrowserFailed event

text \<open>
  The environment. The jar type \<open>'jar\<close> is tough-cookie's \<^verbatim>\<open>CookieJar\<close>, left
  abstract with its operations:
  \<^item> \<open>newCookieJar\<close> is \<^verbatim>\<open>new CookieJar()\<close>; \<open>fromJSON\<close> is
    \<^verbatim>\<open>CookieJar.fromJSON\<close> (\<open>None\<close> when it throws); \<open>toJSON j\<close> is the text
    \<^verbatim>\<open>JSON.stringify(j.toJSON())\<close>;
  \<^item> \<open>getCookies j u\<close> and \<open>getCookieString j u\<close> are the jar's methods of these names,
    which read the jar's memory store and complete for the fixed URL the script gives
    them;
  \<^item> \<open>setCookie j c u\<close> is the jar after \<^verbatim>\<open>setCookie(c, u)\<close>, and \<open>None\<close> when the
    jar refuses the header \<open>c\<close> (it does not parse, or its domain does not match \<open>u\<close>) and
    the promise rejects;
  \<^item> \<open>fetch r\<close> is the response to the request \<open>r\<close>, and \<open>None\<close> when the promise
    rejects (no response arrives);
  \<^item> \<open>select html sel\<close> is \<^verbatim>\<open>cheerio.load(html)(sel)\<close>, the matched elements in
    document order;
  \<^item> \<open>browserOk cs e\<close> tells whether the puppeteer call \<open>e\<close> completes in a page in
    which the cookies \<open>cs\<close> have been set so far;
  \<^item> \<open>pageContent cs u\<close> is the markup \<^verbatim>\<open>page.content()\<close> returns after the
    cookies \<open>cs\<close> were set and the page went to \<open>u\<close> and showed the awaited selector;
  \<^item> \<open>writeFileOk p\<close> tells whether \<^verbatim>\<open>writeFile\<close> on the path \<open>p\<close> completes.
\<close>

record 'jar world =
  newCookieJar :: 'jar
  fromJSON :: "string \<Rightarrow> 'jar option"
  toJSON :: "'jar \<Rightarrow> string"
  getCookies :: "'jar \<Rightarrow> string \<Rightarrow> Cookie list"
  getCookieString :: "'jar \<Rightarrow> string \<Rightarrow> string"
  setCookie :: "'jar \<Rightarrow> string \<Rightarrow> string \<Rightarrow> 'jar option"
  fetch :: "Request \<Rightarrow> Response option"
  select :: "string \<Rightarrow> string \<Rightarrow> element list"
  browserOk :: "CookieParam list \<Rightarrow> event \<Rightarrow> bool"
  pageContent :: "CookieParam list \<Rightarrow> string \<Rightarrow> string"
  writeFileOk :: "string \<Rightarrow> bool"

text \<open>
  The state the script changes: the module variable \<^verbatim>\<open>cookieJar\<close>, the two files
  (\<open>None\<close> is a file that cannot be read), the cookies set in the browser page, and the
  events so far. \<open>outputFile\<close> holds the array whose
  \<^verbatim>\<open>JSON.stringify(allData, null, 2)\<close> text the file contains. A \<^verbatim>\<open>writeFile\<close>
  that rejects is recorded as an event and leaves the file's content in the state as it
  was; none of the theorems for the claims says anything about the content of a file
  after a rejected write to it.
\<close>

record 'jar state =
  cookieJar :: 'jar
  cookieFile :: "string option"
  outputFile :: "User list option"
  pageCookies :: "CookieParam list"
  trace :: "event list"

type_synonym ('jar, 'a) action = "'jar state \<Rightarrow> (error + 'a) \<times> 'jar state"

section \<open>Configuration\<close>

definition config_domain :: string where
  "config_domain = ''https://challenge.sunvoy.com''"

definition config_loginUrl :: string where
  "config_loginUrl = ''https://challenge.sunvoy.com/login''"

definition config_usersApiUrl :: string where
  "config_usersApiUrl = ''https://challenge.sunvoy.com/api/users''"

definition config_settingsPageUrl :: string where
  "config_settingsPageUrl = ''https://challenge.sunvoy.com/settings''"

definition config_username :: string where
  "config_username = ''demo@example.org''"

definition config_password :: string where
  "config_password = ''test''"

definition config_cookieFilePath :: string where
  "config_cookieFilePath = ''cookies.json''"

text \<open>\<^verbatim>\<open>path.join(process.cwd(), "users.json")\<close>, relative to the working directory.\<close>

definition config_outputFilePath :: string where
  "config_outputFilePath = ''users.json''"

section \<open>Library methods the script's checks depend on\<close>

text \<open>\<^verbatim>\<open>s.startsWith(t)\<close> and \<^verbatim>\<open>s.includes(t)\<close> on strings.\<close>

fun startsWith :: "string \<Rightarrow> string \<Rightarrow> bool" where
  "startsWith s [] = True"
| "startsWith [] (y # t) = False"
| "startsWith (x # s) (y # t) = (x = y \<and> startsWith s t)"

fun includes_str :: "string \<Rightarrow> string \<Rightarrow> bool" where
  "includes_str [] t = (t = [])"
| "includes_str (x # s) t = (startsWith (x # s) t \<or> includes_str s t)"

text \<open>
  cheerio: \<^verbatim>\<open>.attr(n)\<close> of an element, \<^verbatim>\<open>.eq(i)\<close> of a selection (the one element
  at index \<open>i\<close>, or the empty selection), and \<^verbatim>\<open>.val()\<close> of a selection of input
  elements (the \<^verbatim>\<open>value\<close> attribute of the first element; \<^verbatim>\<open>undefined\<close> when
  there is no element or no such attribute).
\<close>

definition attr :: "element \<Rightarrow> string \<Rightarrow> string option" where
  "attr e n = map_of (attribs e) n"

definition eq :: "element list \<Rightarrow> nat \<Rightarrow> element list" where
  "eq xs i = (if i < length xs then [xs ! i] else [])"

definition val :: "element list \<Rightarrow> string option" where
  "val xs = (case xs of [] \<Rightarrow> None | e # _ \<Rightarrow> attr e ''value'')"

text \<open>\<^verbatim>\<open>v || ""\<close>: the empty string replaces \<^verbatim>\<open>undefined\<close> and the empty string.\<close>

definition orEmpty :: "string option \<Rightarrow> string" where
  "orEmpty v = (case v of None \<Rightarrow> '''' | Some s \<Rightarrow> (if s = '''' then '''' else s))"

text \<open>
  The number \<^verbatim>\<open>ms / 1000\<close> for a whole number \<open>ms\<close> of milliseconds: the IEEE 754
  double nearest to the quotient, ties to the even significand. \<open>binade_shift 62 a 0\<close> is
  the least \<open>k\<close> with \<open>2^52 \<le> (a / 1000) * 2^k\<close>, so that the quotient scaled by \<open>2^k\<close>
  has its 53 significant bits before the point; it is rounded there to a whole number and
  scaled back. (The time value of a \<^verbatim>\<open>Date\<close> is below \<open>2^53\<close>, hence a double
  itself, and its quotient is far from the ends of the double range.)
\<close>

definition round_half_even :: "rat \<Rightarrow> int" where
  "round_half_even x =
     (let f = \<lfloor>x\<rfloor>; d = x - of_int f
      in if d < 1 / 2 then f
         else if 1 / 2 < d then f + 1
         else if even f then f else f + 1)"

fun binade_shift :: "nat \<Rightarrow> int \<Rightarrow> nat \<Rightarrow> nat" where
  "binade_shift 0 a k = k"
| "binade_shift (Suc fuel) a k =
     (if 1000 * 2 ^ 52 \<le> a * 2 ^ k then k else binade_shift fuel a (Suc k))"

definition div1000_double :: "int \<Rightarrow> rat" where
  "div1000_double ms =
     (let a = \<bar>ms\<bar>;
          k = binade_shift 62 a 0;
          m = round_half_even (of_int (a * 2 ^ k) / 1000)
      in of_int (sgn ms * m) / 2 ^ k)"

section \<open>The script\<close>

text \<open>Sequencing of awaited calls: the first error ends the sequence.\<close>

definition andThen :: "('jar, 'a) action \<Rightarrow> ('a \<Rightarrow> ('jar, 'b) action) \<Rightarrow> ('jar, 'b) action" where
  "andThen f g s = (case f s of (Inl e, s') \<Rightarrow> (Inl e, s') | (Inr x, s') \<Rightarrow> g x s')"

definition emit :: "event list \<Rightarrow> 'jar state \<Rightarrow> 'jar state" where
  "emit evs s = s\<lparr>trace := trace s @ evs\<rparr>"

text \<open>
  \<^verbatim>\<open>loadCookies\<close>. \<open>loadCookies_try\<close> is the body of its \<^verbatim>\<open>try\<close> block:
  \<^verbatim>\<open>readFile\<close> throws when the file cannot be read and \<^verbatim>\<open>CookieJar.fromJSON\<close>
  throws on malformed content. The \<^verbatim>\<open>catch\<close> block is empty.
\<close>

definition loadCookies_try :: "'jar world \<Rightarrow> ('jar, unit) action" where
  "loadCookies_try w s =
     (let s1 = emit [ReadFile config_cookieFilePath] s in
      case cookieFile s1 of
        None \<Rightarrow> (Inl ReadFileFailed, s1)
      | Some cookieFileText \<Rightarrow>
          (case fromJSON w cookieFileText of
             None \<Rightarrow> (Inl FromJSONFailed, s1)
           | Some j \<Rightarrow> (Inr (), s1\<lparr>cookieJar := j\<rparr>)))"

definition loadCookies :: "'jar world \<Rightarrow> ('jar, unit) action" where
  "loadCookies w s =
     (case loadCookies_try w s of
        (Inl e, s') \<Rightarrow> (Inr (), s')
      | (Inr u, s') \<Rightarrow> (Inr u, s'))"

text \<open>\<^verbatim>\<open>saveCookies\<close>.\<close>

definition saveCookies :: "'jar world \<Rightarrow> ('jar, unit) action" where
  "saveCookies w s =
     (let s1 = emit [WriteFile config_cookieFilePath] s in
      if writeFileOk w config_cookieFilePath
      then (Inr (), s1\<lparr>cookieFile := Some (toJSON w (cookieJar s1))\<rparr>)
      else (Inl (WriteFileFailed config_cookieFilePath), s1))"

text \<open>
  \<^verbatim>\<open>hasValidSession\<close>. The predicate given to \<^verbatim>\<open>find\<close> is
  \<^verbatim>\<open>c.key?.includes("session")\<close>: \<^verbatim>\<open>undefined\<close>, so falsy, for a cookie with
  no key.
\<close>

definition isSessionCookie :: "Cookie \<Rightarrow> bool" where
  "isSessionCookie c = (case key c of None \<Rightarrow> False | Some k \<Rightarrow> includes_str k ''session'')"

definition hasValidSession :: "'jar world \<Rightarrow> ('jar, bool) action" where
  "hasValidSession w s =
     (let cookies = getCookies w (cookieJar s) config_domain;
          sessionCookie = find isSessionCookie cookies
      in (Inr (sessionCookie \<noteq> None), s))"

text \<open>
  \<^verbatim>\<open>authenticate\<close>. \<open>authenticate_loop\<close> is its \<^verbatim>\<open>for\<close> loop over the Set-Cookie
  headers: it stops at the first header the jar refuses, with the jar as the headers
  before that one left it (the jar is one object, changed in place by each
  \<^verbatim>\<open>setCookie\<close>). \<^verbatim>\<open>typeof nonce !== "string"\<close> holds exactly when
  \<^verbatim>\<open>.val()\<close> is \<^verbatim>\<open>undefined\<close>, the selection having input elements only.
\<close>

definition loginPageRequest :: Request where
  "loginPageRequest =
     \<lparr>url = config_loginUrl, method_field = ''GET'', headers = [], body = [], redirect = ''follow''\<rparr>"

definition loginSubmitRequest :: "string \<Rightarrow> Request" where
  "loginSubmitRequest nonce =
     \<lparr>url = config_loginUrl, method_field = ''POST'',
      headers = [(''Content-Type'', ''application/x-www-form-urlencoded'')],
      body = [(''nonce'', nonce), (''username'', config_username),
              (''password'', config_password)],
      redirect = ''manual''\<rparr>"

definition nonceSelector :: string where
  \<open>nonceSelector = ''input[name="nonce"]''\<close>

fun authenticate_loop :: "'jar world \<Rightarrow> string list \<Rightarrow> 'jar \<Rightarrow> (error + unit) \<times> 'jar" where
  "authenticate_loop w [] j = (Inr (), j)"
| "authenticate_loop w (cookie # rest) j =
     (case setCookie w j cookie config_domain of
        None \<Rightarrow> (Inl (SetCookieRejected cookie), j)
      | Some j' \<Rightarrow> authenticate_loop w rest j')"

definition authenticate :: "'jar world \<Rightarrow> ('jar, unit) action" where
  "authenticate w s =
     (let s1 = emit [Fetch loginPageRequest] s in
      case fetch w loginPageRequest of
        None \<Rightarrow> (Inl (FetchFailed loginPageRequest), s1)
      | Some loginPageRes \<Rightarrow>
          (case text_body loginPageRes of
             None \<Rightarrow> (Inl TextFailed, s1)
           | Some html \<Rightarrow>
               (case val (select w html nonceSelector) of
                  None \<Rightarrow> (Inl (Error ''Could not find nonce value on the login page.''), s1)
                | Some nonce \<Rightarrow>
                    (let s2 = emit [Fetch (loginSubmitRequest nonce)] s1 in
                     case fetch w (loginSubmitRequest nonce) of
                       None \<Rightarrow> (Inl (FetchFailed (loginSubmitRequest nonce)), s2)
                     | Some authRes \<Rightarrow>
                         (let cookieHeaders = getSetCookie authRes in
                          if status authRes \<noteq> 302 \<or> cookieHeaders = []
                          then (Inl (Error
                            ''Authentication failed. The server did not return a valid session.''),
                                s2)
                          else (case authenticate_loop w cookieHeaders (cookieJar s2) of
                                  (r, j) \<Rightarrow> (r, s2\<lparr>cookieJar := j\<rparr>)))))))"

text \<open>
  \<^verbatim>\<open>fetchData\<close>. \<open>toPuppeteerCookie\<close> is the function it maps over the jar's
  cookies, \<open>fetchData_loop\<close> its \<^verbatim>\<open>for\<close> loop over the translated cookies,
  \<open>fetchData_browser\<close> its lines 113 to 142 (from \<^verbatim>\<open>puppeteer.launch()\<close> to
  \<^verbatim>\<open>browser.close()\<close>; a call that rejects ends them, the browser left open), and
  \<open>currentUser\<close> the record it builds from the selection \<^verbatim>\<open>$("form input")\<close>.
\<close>

definition usersRequest :: "string \<Rightarrow> Request" where
  "usersRequest cookieString =
     \<lparr>url = config_usersApiUrl, method_field = ''POST'', headers = [(''Cookie'', cookieString)],
      body = [], redirect = ''follow''\<rparr>"

definition toPuppeteerCookie :: "Cookie \<Rightarrow> CookieParam" where
  "toPuppeteerCookie cookie =
     \<lparr>name = key cookie,
      value_field = Cookie.value_field cookie,
      domain = Cookie.domain cookie,
      path = Cookie.path cookie,
      expires = (case Cookie.expires cookie of
                   Infinity \<Rightarrow> - 1
                 | Date ms \<Rightarrow> div1000_double ms),
      secure = Cookie.secure cookie,
      httpOnly = Cookie.httpOnly cookie\<rparr>"

definition browserCall :: "'jar world \<Rightarrow> event \<Rightarrow> ('jar, unit) action" where
  "browserCall w e s =
     (if browserOk w (pageCookies s) e then (Inr (), emit [e] s)
      else (Inl (BrowserFailed e), emit [e] s))"

fun fetchData_loop :: "'jar world \<Rightarrow> CookieParam list \<Rightarrow> ('jar, unit) action" where
  "fetchData_loop w [] s = (Inr (), s)"
| "fetchData_loop w (cookie # rest) s =
     (case browserCall w (PageSetCookie cookie) s of
        (Inl e, s') \<Rightarrow> (Inl e, s')
      | (Inr u, s') \<Rightarrow> fetchData_loop w rest (s'\<lparr>pageCookies := pageCookies s' @ [cookie]\<rparr>))"

definition fetchData_browser :: "'jar world \<Rightarrow> ('jar, string) action" where
  "fetchData_browser w s =
     andThen (browserCall w Launch) (\<lambda>_.
     andThen (browserCall w NewPage) (\<lambda>_.
     andThen (\<lambda>s'. fetchData_loop w
                (map toPuppeteerCookie (getCookies w (cookieJar s') config_domain)) s') (\<lambda>_.
     andThen (browserCall w (Goto config_settingsPageUrl)) (\<lambda>_.
     andThen (browserCall w (WaitForSelector ''form.space-y-4 input'')) (\<lambda>_.
     andThen (browserCall w Content) (\<lambda>_.
     andThen (browserCall w Close) (\<lambda>_ s'.
     (Inr (pageContent w (pageCookies s') config_settingsPageUrl), s'))))))))
       (s\<lparr>pageCookies := []\<rparr>)"

definition currentUser :: "element list \<Rightarrow> User" where
  "currentUser inputs =
     \<lparr>id_field = Some (orEmpty (val (eq inputs 0))),
      firstName = Some (orEmpty (val (eq inputs 1))),
      lastName = Some (orEmpty (val (eq inputs 2))),
      email = Some (orEmpty (val (eq inputs 3)))\<rparr>"

definition fetchData :: "'jar world \<Rightarrow> ('jar, User list) action" where
  "fetchData w s =
     (let cookieString = getCookieString w (cookieJar s) config_domain;
          s1 = emit [Fetch (usersRequest cookieString)] s
      in case fetch w (usersRequest cookieString) of
           None \<Rightarrow> (Inl (FetchFailed (usersRequest cookieString)), s1)
         | Some usersResponse \<Rightarrow>
             if \<not> ok usersResponse then (Inl (Error ''Users API fetch failed.''), s1)
             else (case json usersResponse of
                     None \<Rightarrow> (Inl JsonFailed, s1)
                   | Some userList \<Rightarrow>
                       (case fetchData_browser w s1 of
                          (Inl e, s2) \<Rightarrow> (Inl e, s2)
                        | (Inr settingsHtml, s2) \<Rightarrow>
                            (let inputs = select w settingsHtml ''form input''
                             in (Inr (userList @ [currentUser inputs]), s2)))))"

text \<open>
  \<^verbatim>\<open>main\<close>. \<open>main_try\<close> is the body of its \<^verbatim>\<open>try\<close> block and \<open>writeOutput\<close>
  its line 173; the result of \<open>main\<close> is the exit code of the process
  (\<^verbatim>\<open>process.exit(1)\<close> in the \<^verbatim>\<open>catch\<close> block, 0 otherwise) and the final state.
  Console output is left out.
\<close>

definition writeOutput :: "'jar world \<Rightarrow> User list \<Rightarrow> ('jar, unit) action" where
  "writeOutput w allData s =
     (let s1 = emit [WriteFile config_outputFilePath] s in
      if writeFileOk w config_outputFilePath
      then (Inr (), s1\<lparr>outputFile := Some allData\<rparr>)
      else (Inl (WriteFileFailed config_outputFilePath), s1))"

definition main_try :: "'jar world \<Rightarrow> ('jar, unit) action" where
  "main_try w =
     andThen (loadCookies w) (\<lambda>_.
     andThen (hasValidSession w) (\<lambda>valid.
     andThen (if \<not> valid
              then andThen (authenticate w) (\<lambda>_. saveCookies w)
              else (\<lambda>s. (Inr (), s))) (\<lambda>_.
     andThen (fetchData w) (\<lambda>allData.
     writeOutput w allData))))"

definition main :: "'jar world \<Rightarrow> 'jar state \<Rightarrow> nat \<times> 'jar state" where
  "main w s = (case main_try w s of (Inl e, s') \<Rightarrow> (1, s') | (Inr u, s') \<Rightarrow> (0, s'))"

text \<open>
  The state in which \<open>main\<close> starts: the module initialiser has run
  (\<^verbatim>\<open>let cookieJar = new CookieJar()\<close>), the two files are as found.
\<close>

definition initial :: "'jar world \<Rightarrow> string option \<Rightarrow> User list option \<Rightarrow> 'jar state" where
  "initial w cf outf =
     \<lparr>cookieJar = newCookieJar w, cookieFile = cf, outputFile = outf,
      pageCookies = [], trace = []\<rparr>"

section \<open>Names used in the statements\<close>

text \<open>
  The three errors the script throws, and the time-out of the wait for the settings form,
  under the names the specification gives them.
\<close>

definition ProtocolError :: error where
  "ProtocolError = Error ''Could not find nonce value on the login page.''"

definition AuthenticationError :: error where
  "AuthenticationError =
     Error ''Authentication failed. The server did not return a valid session.''"



text \<open>
  What the environment hands to the script, as functions of the jar the script holds:
  the jar after \<^verbatim>\<open>loadCookies\<close>; the markup of the login page, when it arrives; the
  value cheerio reads in it for the nonce field; whether the page arrived without such a
  value; the response to the login submission with nonce \<open>n\<close> and the response of the
  users endpoint, when they arrive; the list \<^verbatim>\<open>.json()\<close> makes of the latter; and the
  \<^verbatim>\<open>form input\<close> selection of the rendered settings page.
\<close>

definition loadedJar :: "'jar world \<Rightarrow> 'jar state \<Rightarrow> 'jar" where
  "loadedJar w s =
     (case cookieFile s of
        None \<Rightarrow> cookieJar s
      | Some t \<Rightarrow> (case fromJSON w t of None \<Rightarrow> cookieJar s | Some j \<Rightarrow> j))"

definition loginPage :: "'jar world \<Rightarrow> string option" where
  "loginPage w = (case fetch w loginPageRequest of None \<Rightarrow> None | Some r \<Rightarrow> text_body r)"

definition loginNonce :: "'jar world \<Rightarrow> string option" where
  "loginNonce w =
     (case loginPage w of None \<Rightarrow> None | Some html \<Rightarrow> val (select w html nonceSelector))"

definition nonceMissing :: "'jar world \<Rightarrow> bool" where
  "nonceMissing w =
     (case loginPage w of None \<Rightarrow> False | Some html \<Rightarrow> val (select w html nonceSelector) = None)"

definition loginResponse :: "'jar world \<Rightarrow> string \<Rightarrow> Response option" where
  "loginResponse w n = fetch w (loginSubmitRequest n)"

definition usersResponse :: "'jar world \<Rightarrow> 'jar \<Rightarrow> Response option" where
  "usersResponse w j = fetch w (usersRequest (getCookieString w j config_domain))"

definition usersList :: "'jar world \<Rightarrow> 'jar \<Rightarrow> User list option" where
  "usersList w j = (case usersResponse w j of None \<Rightarrow> None | Some r \<Rightarrow> json r)"

definition settingsInputs :: "'jar world \<Rightarrow> 'jar \<Rightarrow> element list" where
  "settingsInputs w j =
     select w (pageContent w (map toPuppeteerCookie (getCookies w j config_domain))
                 config_settingsPageUrl) ''form input''"

text \<open>
  Whether the jar \<open>j\<close> holds a session cookie for the target domain; the jar after the
  headers \<open>hs\<close> were set one by one, when the jar accepts them all; and the value of the
  input element at position \<open>i\<close> of a selection (the empty string when there is no such
  element or it has no \<^verbatim>\<open>value\<close> attribute).
\<close>

definition sessionValid :: "'jar world \<Rightarrow> 'jar \<Rightarrow> bool" where
  "sessionValid w j = list_ex isSessionCookie (getCookies w j config_domain)"

fun mergeAll :: "'jar world \<Rightarrow> 'jar \<Rightarrow> string list \<Rightarrow> 'jar option" where
  "mergeAll w j [] = Some j"
| "mergeAll w j (c # cs) =
     (case setCookie w j c config_domain of None \<Rightarrow> None | Some j' \<Rightarrow> mergeAll w j' cs)"

definition inputValue :: "element list \<Rightarrow> nat \<Rightarrow> string" where
  "inputValue inputs i =
     (if i < length inputs
      then (case attr (inputs ! i) ''value'' of None \<Rightarrow> [] | Some v \<Rightarrow> v)
      else [])"

text \<open>
  The events of \<^verbatim>\<open>authenticate\<close>, and the events of a successful
  \<^verbatim>\<open>fetchData\<close> with jar \<open>j\<close>.
\<close>

definition authEvents :: "'jar world \<Rightarrow> event list" where
  "authEvents w =
     Fetch loginPageRequest #
     (case loginNonce w of None \<Rightarrow> [] | Some n \<Rightarrow> [Fetch (loginSubmitRequest n)])"

definition fetchEvents :: "'jar world \<Rightarrow> 'jar \<Rightarrow> event list" where
  "fetchEvents w j =
     [Fetch (usersRequest (getCookieString w j config_domain)), Launch, NewPage]
     @ map (\<lambda>c. PageSetCookie (toPuppeteerCookie c)) (getCookies w j config_domain)
     @ [Goto config_settingsPageUrl, WaitForSelector ''form.space-y-4 input'', Content, Close]"

text \<open>
  Lines 172 and 173 of \<^verbatim>\<open>main\<close>, the part of the run after the session is settled.
\<close>

definition fetchAndWrite :: "'jar world \<Rightarrow> 'jar state \<Rightarrow> nat \<times> 'jar state" where
  "fetchAndWrite w s =
     (case fetchData w s of
        (Inl e, s') \<Rightarrow> (1, s')
      | (Inr allData, s') \<Rightarrow>
          (case writeOutput w allData s' of
             (Inl e, s'') \<Rightarrow> (1, s'')
           | (Inr u, s'') \<Rightarrow> (0, s'')))"

text \<open>The requests to the login URL, the authenticated accesses, and the puppeteer calls.\<close>

fun isLoginRequest :: "event \<Rightarrow> bool" where
  "isLoginRequest (Fetch r) = (url r = config_loginUrl)"
| "isLoginRequest e = False"

fun isAuthenticatedFetch :: "event \<Rightarrow> bool" where
  "isAuthenticatedFetch (Fetch r) = (url r = config_usersApiUrl)"
| "isAuthenticatedFetch (Goto u) = True"
| "isAuthenticatedFetch e = False"

fun isBrowserEvent :: "event \<Rightarrow> bool" where
  "isBrowserEvent (ReadFile p) = False"
| "isBrowserEvent (WriteFile p) = False"
| "isBrowserEvent (Fetch r) = False"
| "isBrowserEvent e = True"

fun isPageSetCookie :: "event \<Rightarrow> bool" where
  "isPageSetCookie (PageSetCookie c) = True"
| "isPageSetCookie e = False"

text \<open>
  An action that touches the browser only: it leaves the jar and the two files alone,
  adds puppeteer calls to the events and nothing else, and fails only when such a call
  fails.
\<close>

definition browserOnly :: "('jar, 'a) action \<Rightarrow> bool" where
  "browserOnly f =
     (\<forall>s. cookieJar (snd (f s)) = cookieJar s \<and>
          cookieFile (snd (f s)) = cookieFile s \<and>
          outputFile (snd (f s)) = outputFile s \<and>
          (\<exists>evs. trace (snd (f s)) = trace s @ evs \<and> list_all isBrowserEvent evs) \<and>
          (\<forall>e. fst (f s) = Inl e \<longrightarrow> (\<exists>ev. e = BrowserFailed ev)))"

section \<open>A small world for closed examples\<close>

text \<open>
  One concrete environment, used only to evaluate the script on explicit inputs. Its jar
  is the list of the Set-Cookie header values it was given; it accepts a header of the
  form \<^verbatim>\<open>name=value\<close> and refuses one without an equals sign. The jar's text is the
  headers separated by semicolons. Every request is answered, every puppeteer call
  completes and every file can be written. The login submission's response, the users
  endpoint's response and the two cheerio selections are parameters.
\<close>

fun split_on :: "char \<Rightarrow> string \<Rightarrow> string list" where
  "split_on d [] = [[]]"
| "split_on d (c # cs) =
     (if c = d then [] # split_on d cs
      else (case split_on d cs of [] \<Rightarrow> [[c]] | x # xs \<Rightarrow> (c # x) # xs))"

fun join_with :: "char \<Rightarrow> string list \<Rightarrow> string" where
  "join_with d [] = []"
| "join_with d [x] = x"
| "join_with d (x # y # ys) = x @ d # join_with d (y # ys)"

definition demo_cookie :: "string \<Rightarrow> Cookie" where
  "demo_cookie hdr =
     \<lparr>key = Some (takeWhile (\<lambda>c. c \<noteq> CHR ''='') hdr),
      value_field = drop 1 (dropWhile (\<lambda>c. c \<noteq> CHR ''='') hdr),
      domain = Some ''challenge.sunvoy.com'',
      path = Some ''/'',
      expires = Infinity,
      secure = True,
      httpOnly = True\<rparr>"

definition demo_fromJSON :: "string \<Rightarrow> string list option" where
  "demo_fromJSON txt =
     (let hs = split_on CHR '';'' txt
      in if list_all (\<lambda>h. CHR ''='' \<in> set h) hs then Some hs else None)"

definition demo_setCookie :: "string list \<Rightarrow> string \<Rightarrow> string \<Rightarrow> string list option" where
  "demo_setCookie j c u = (if CHR ''='' \<in> set c then Some (j @ [c]) else None)"

definition demo_loginPage :: Response where
  "demo_loginPage =
     \<lparr>status = 200, getSetCookie = [], text_body = Some ''<form>'', json = None\<rparr>"

definition demo_world ::
  "Response \<Rightarrow> Response \<Rightarrow> element list \<Rightarrow> element list \<Rightarrow> (string list) world" where
  "demo_world authRes usersRes nonceInputs formInputs =
     \<lparr>newCookieJar = [],
      fromJSON = demo_fromJSON,
      toJSON = join_with CHR '';'',
      getCookies = (\<lambda>j u. map demo_cookie j),
      getCookieString = (\<lambda>j u. join_with CHR '';'' j),
      setCookie = demo_setCookie,
      fetch = (\<lambda>r. if url r = config_usersApiUrl then Some usersRes
                    else if method_field r = ''GET'' then Some demo_loginPage
                    else Some authRes),
      select = (\<lambda>html sel. if sel = nonceSelector then nonceInputs
                            else if sel = ''form input'' then formInputs else []),
      browserOk = (\<lambda>cs e. True),
      pageContent = (\<lambda>cs u. ''<form>''),
      writeFileOk = (\<lambda>p. True)\<rparr>"

definition input_el :: "(string \<times> string) list \<Rightarrow> element" where
  "input_el as = \<lparr>tagName = ''input'', attribs = as\<rparr>"

definition demo_authRes :: Response where
  "demo_authRes =
     \<lparr>status = 302, getSetCookie = [''session=abc''], text_body = Some [], json = None\<rparr>"

definition demo_user :: User where
  "demo_user = \<lparr>id_field = Some ''1'', firstName = Some ''A'', lastName = Some ''B'',
                 email = Some ''a@b.com''\<rparr>"

definition demo_usersRes :: Response where
  "demo_usersRes =
     \<lparr>status = 200, getSetCookie = [], text_body = Some [], json = Some [demo_user]\<rparr>"

definition demo_nonceInputs :: "element list" where
  "demo_nonceInputs = [input_el [(''type'', ''hidden''), (''name'', ''nonce''), (''value'', ''n0'')]]"

definition demo_formInputs :: "element list" where
  "demo_formInputs =
     [input_el [(''name'', ''email''), (''value'', ''42'')],
      input_el [(''id'', ''lastName''), (''value'', ''John'')],
      input_el [(''value'', ''Doe'')],
      input_el [(''name'', ''id''), (''value'', ''john@doe.com'')]]"

definition demo_w :: "(string list) world" where
  "demo_w = demo_world demo_authRes demo_usersRes demo_nonceInputs demo_formInputs"

text \<open>A users endpoint whose one record has a first name and nothing else.\<close>

definition demo_partialUser :: User where
  "demo_partialUser = \<lparr>id_field = None, firstName = Some ''A'', lastName = None, email = None\<rparr>"

definition demo_partial_w :: "(string list) world" where
  "demo_partial_w =
     demo_world demo_authRes (demo_usersRes\<lparr>json := Some [demo_partialUser]\<rparr>)
       demo_nonceInputs demo_formInputs"

text \<open>
  Variants of that world: a login page without nonce field; one with two nonce fields of
  which only the second has a value; a login submission answered with status 401 and no
  cookie; one answered with status 302 and no cookie; one answered with status 302 and a
  cookie that is no session cookie; one answered with status 302, a session cookie and a
  header the jar refuses; a users endpoint that answers 401; one that answers 200 with a
  body that is not JSON; a settings page on which the awaited form never appears; and a
  settings form with three inputs of which one has no value and one an empty value.
\<close>

definition demo_no_nonce_w :: "(string list) world" where
  "demo_no_nonce_w = demo_world demo_authRes demo_usersRes [] demo_formInputs"

definition demo_two_nonce_w :: "(string list) world" where
  "demo_two_nonce_w =
     demo_world demo_authRes demo_usersRes
       [input_el [(''name'', ''nonce'')], input_el [(''name'', ''nonce''), (''value'', ''n1'')]]
       demo_formInputs"

definition demo_rejected_w :: "(string list) world" where
  "demo_rejected_w =
     demo_world (demo_authRes\<lparr>status := 401, getSetCookie := []\<rparr>) demo_usersRes
       demo_nonceInputs demo_formInputs"

definition demo_no_cookie_w :: "(string list) world" where
  "demo_no_cookie_w =
     demo_world (demo_authRes\<lparr>getSetCookie := []\<rparr>) demo_usersRes
       demo_nonceInputs demo_formInputs"

definition demo_theme_w :: "(string list) world" where
  "demo_theme_w =
     demo_world (demo_authRes\<lparr>getSetCookie := [''theme=dark'']\<rparr>) demo_usersRes
       demo_nonceInputs demo_formInputs"

definition demo_refused_w :: "(string list) world" where
  "demo_refused_w =
     demo_world (demo_authRes\<lparr>getSetCookie := [''session=abc'', ''bad'']\<rparr>) demo_usersRes
       demo_nonceInputs demo_formInputs"

definition demo_users_401_w :: "(string list) world" where
  "demo_users_401_w =
     demo_world demo_authRes (demo_usersRes\<lparr>status := 401\<rparr>) demo_nonceInputs demo_formInputs"

definition demo_bad_json_w :: "(string list) world" where
  "demo_bad_json_w =
     demo_world demo_authRes (demo_usersRes\<lparr>json := None\<rparr>) demo_nonceInputs demo_formInputs"

definition demo_timeout_w :: "(string list) world" where
  "demo_timeout_w =
     demo_w\<lparr>browserOk := (\<lambda>cs e. e \<noteq> WaitForSelector ''form.space-y-4 input'')\<rparr>"

definition demo_sparseInputs :: "element list" where
  "demo_sparseInputs =
     [input_el [(''value'', ''7'')], input_el [(''name'', ''firstName'')],
      input_el [(''value'', '''')]]"

definition demo_sparse_w :: "(string list) world" where
  "demo_sparse_w = demo_world demo_authRes demo_usersRes demo_nonceInputs demo_sparseInputs"

section \<open>Substrings\<close>

lemma startsWith_iff: "startsWith s t \<longleftrightarrow> (\<exists>ss. s = t @ ss)"
  by (induction s t rule: startsWith.induct) auto

lemma includes_iff: "includes_str s t \<longleftrightarrow> (\<exists>ps ss. s = ps @ t @ ss)"
proof (induction s)
  case Nil
  show ?case by auto
next
  case (Cons x s)
  have "(\<exists>ps ss. x # s = ps @ t @ ss) \<longleftrightarrow>
        (\<exists>ss. x # s = t @ ss) \<or> (\<exists>ps ss. s = ps @ t @ ss)"
  proof
    assume "\<exists>ps ss. x # s = ps @ t @ ss"
    then obtain ps ss where d: "x # s = ps @ t @ ss" by blast
    show "(\<exists>ss. x # s = t @ ss) \<or> (\<exists>ps ss. s = ps @ t @ ss)"
    proof (cases ps)
      case Nil
      with d show ?thesis by auto
    next
      case (Cons p ps')
      with d have "s = ps' @ t @ ss" by simp
      then show ?thesis by blast
    qed
  next
    assume "(\<exists>ss. x # s = t @ ss) \<or> (\<exists>ps ss. s = ps @ t @ ss)"
    then show "\<exists>ps ss. x # s = ps @ t @ ss"
    proof
      assume "\<exists>ss. x # s = t @ ss"
      then obtain ss where "x # s = [] @ t @ ss" by auto
      then show ?thesis by blast
    next
      assume "\<exists>ps ss. s = ps @ t @ ss"
      then obtain ps ss where "x # s = (x # ps) @ t @ ss" by auto
      then show ?thesis by blast
    qed
  qed
  with Cons show ?case by (simp add: startsWith_iff)
qed

section \<open>Rounding to a double\<close>

lemma round_half_even_error: "\<bar>of_int (round_half_even x) - x\<bar> \<le> 1 / 2"
proof -
  have "of_int \<lfloor>x\<rfloor> \<le> x" "x < of_int \<lfloor>x\<rfloor> + 1"
    by linarith+
  then show ?thesis
    by (auto simp: round_half_even_def Let_def)
qed

lemma round_half_even_of_int [simp]: "round_half_even (of_int n) = n"
  by (simp add: round_half_even_def)

lemma binade_shift_reaches:
  "0 < a \<Longrightarrow> 62 \<le> k + fuel \<Longrightarrow> 1000 * 2 ^ 52 \<le> a * 2 ^ binade_shift fuel a k"
proof (induction fuel arbitrary: k)
  case 0
  have "(1000::int) * 2 ^ 52 \<le> 2 ^ 62"
    by simp
  also from 0 have "(2::int) ^ 62 \<le> 2 ^ k"
    by (intro power_increasing) simp_all
  also from 0 have "(2::int) ^ k \<le> a * 2 ^ k"
    using mult_right_mono [of 1 a "2 ^ k"] by simp
  finally show ?case
    by (simp only: binade_shift.simps)
next
  case (Suc fuel)
  then show ?case by simp
qed

lemma div1000_double_error:
  "\<bar>div1000_double ms - of_int ms / 1000\<bar> \<le> \<bar>of_int ms / 1000\<bar> / 2 ^ 53"
proof (cases "ms = 0")
  case True
  then show ?thesis
    by (simp add: div1000_double_def)
next
  case False
  define a where "a = \<bar>ms\<bar>"
  define k where "k = binade_shift 62 a 0"
  define q :: rat where "q = of_int (a * 2 ^ k) / 1000"
  define m where "m = round_half_even q"
  from False have pos: "0 < a" by (simp add: a_def)
  then have "1000 * 2 ^ 52 \<le> a * 2 ^ k"
    unfolding k_def by (rule binade_shift_reaches) simp
  then have "(of_int (1000 * 2 ^ 52) :: rat) \<le> of_int (a * 2 ^ k)"
    by (simp only: of_int_le_iff)
  then have big: "2 ^ 52 \<le> q"
    by (simp add: q_def)
  have near: "\<bar>of_int m - q\<bar> \<le> 1 / 2"
    unfolding m_def by (rule round_half_even_error)
  have val: "div1000_double ms = of_int (sgn ms) * of_int m / 2 ^ k"
    by (simp add: div1000_double_def Let_def a_def k_def q_def m_def)
  have quo: "of_int ms / 1000 = of_int (sgn ms) * q / (2 ^ k :: rat)"
  proof -
    have "ms = sgn ms * a" by (simp add: a_def mult_sgn_abs)
    then have "(of_int ms :: rat) = of_int (sgn ms) * of_int a"
      by (metis of_int_mult)
    then show ?thesis by (simp add: q_def)
  qed
  have sg: "\<bar>of_int (sgn ms) :: rat\<bar> = 1"
    using False by (simp add: sgn_if)
  have "div1000_double ms - of_int ms / 1000 = of_int (sgn ms) * (of_int m - q) / (2 ^ k :: rat)"
    by (simp add: val quo algebra_simps diff_divide_distrib)
  then have "\<bar>div1000_double ms - of_int ms / 1000\<bar> = \<bar>of_int m - q\<bar> / 2 ^ k"
    by (simp add: abs_mult sg)
  also have "\<dots> \<le> (1 / 2) / 2 ^ k"
    using near by (intro divide_right_mono) simp_all
  also have "\<dots> \<le> (q / 2 ^ 53) / 2 ^ k"
    using big by (intro divide_right_mono) simp_all
  also have "\<dots> = \<bar>of_int ms / 1000\<bar> / 2 ^ 53"
  proof -
    from big have "0 \<le> q" by simp
    then have "\<bar>of_int ms / 1000 :: rat\<bar> = q / 2 ^ k"
      by (simp add: quo abs_mult sg)
    then show ?thesis by simp
  qed
  finally show ?thesis .
qed

lemma div1000_double_whole: "div1000_double (1000 * t) = of_int t"
proof -
  define k where "k = binade_shift 62 \<bar>1000 * t\<bar> 0"
  have "(of_int (\<bar>1000 * t\<bar> * 2 ^ k) :: rat) / 1000 = of_int (\<bar>t\<bar> * 2 ^ k)"
    by (simp add: abs_mult)
  then have "div1000_double (1000 * t) = of_int (sgn (1000 * t) * (\<bar>t\<bar> * 2 ^ k)) / 2 ^ k"
    unfolding div1000_double_def Let_def k_def [symmetric]
    by (simp only: round_half_even_of_int)
  also have "sgn (1000 * t) = sgn t"
    by (simp add: sgn_mult)
  also have "(of_int (sgn t * (\<bar>t\<bar> * 2 ^ k)) :: rat) / 2 ^ k = of_int (sgn t * \<bar>t\<bar>)"
    by simp
  also have "sgn t * \<bar>t\<bar> = t"
    by (simp add: mult_sgn_abs)
  finally show ?thesis .
qed

lemma binade_shift_bounds:
  "k0 \<le> binade_shift fuel a k0 \<and> binade_shift fuel a k0 \<le> k0 + fuel"
proof (induction fuel arbitrary: k0)
  case 0
  show ?case by simp
next
  case (Suc fuel)
  from Suc [of "Suc k0"] show ?case by simp
qed

lemma binade_shift_least:
  "k0 < binade_shift fuel a k0 \<Longrightarrow> a * 2 ^ (binade_shift fuel a k0 - 1) < 1000 * 2 ^ 52"
proof (induction fuel arbitrary: k0)
  case 0
  then show ?case by simp
next
  case (Suc fuel)
  from Suc.prems have low: "\<not> 1000 * 2 ^ 52 \<le> a * 2 ^ k0"
    by (auto simp only: binade_shift.simps split: if_splits)
  then have step: "binade_shift (Suc fuel) a k0 = binade_shift fuel a (Suc k0)"
    by (simp only: binade_shift.simps if_False)
  show ?case
  proof (cases "Suc k0 < binade_shift fuel a (Suc k0)")
    case True
    then show ?thesis
      unfolding step by (rule Suc.IH)
  next
    case False
    with binade_shift_bounds [of "Suc k0" fuel a]
    have "binade_shift fuel a (Suc k0) = Suc k0" by simp
    with low show ?thesis
      unfolding step by (simp only: diff_Suc_1 not_le)
  qed
qed

lemma round_half_even_between:
  assumes "of_int lo \<le> x" "x \<le> of_int hi"
  shows "lo \<le> round_half_even x" "round_half_even x \<le> hi"
proof -
  have fl: "lo \<le> \<lfloor>x\<rfloor>" "\<lfloor>x\<rfloor> \<le> hi"
  proof -
    from assms(1) show "lo \<le> \<lfloor>x\<rfloor>" by (simp add: le_floor_iff)
    have "of_int \<lfloor>x\<rfloor> \<le> x" by linarith
    from this assms(2) have "(of_int \<lfloor>x\<rfloor> :: rat) \<le> of_int hi" by (rule order_trans)
    then show "\<lfloor>x\<rfloor> \<le> hi" by (simp only: of_int_le_iff)
  qed
  have frac: "of_int \<lfloor>x\<rfloor> \<le> x" "x < of_int \<lfloor>x\<rfloor> + 1"
    by linarith+
  show "lo \<le> round_half_even x"
    using fl by (auto simp: round_half_even_def Let_def)
  have "\<lfloor>x\<rfloor> < hi" if "x \<noteq> of_int \<lfloor>x\<rfloor>"
  proof -
    from that [symmetric] frac(1) have "of_int \<lfloor>x\<rfloor> < x"
      by (rule order.not_eq_order_implies_strict)
    from this assms(2) have "(of_int \<lfloor>x\<rfloor> :: rat) < of_int hi" by (rule less_le_trans)
    then show ?thesis by (simp only: of_int_less_iff)
  qed
  with fl show "round_half_even x \<le> hi"
    by (auto simp: round_half_even_def Let_def)
qed

lemma div1000_double_significand:
  assumes "ms \<noteq> 0" "\<bar>ms\<bar> < 1000 * 2 ^ 53"
  shows "\<exists>m k. div1000_double ms = of_int (sgn ms * m) / 2 ^ k \<and>
               2 ^ 52 \<le> m \<and> m \<le> 2 ^ 53 \<and> k \<le> 62 \<and>
               \<bar>of_int m - of_int (\<bar>ms\<bar> * 2 ^ k) / (1000 :: rat)\<bar> \<le> 1 / 2"
proof -
  define a where "a = \<bar>ms\<bar>"
  define k where "k = binade_shift 62 a 0"
  define q :: rat where "q = of_int (a * 2 ^ k) / 1000"
  define m where "m = round_half_even q"
  from assms have pos: "0 < a" and small: "a < 1000 * 2 ^ 53"
    by (simp_all add: a_def)
  have "1000 * 2 ^ 52 \<le> a * 2 ^ k"
    unfolding k_def using pos by (rule binade_shift_reaches) simp
  then have "(of_int (1000 * 2 ^ 52) :: rat) \<le> of_int (a * 2 ^ k)"
    by (simp only: of_int_le_iff)
  then have lo: "of_int (2 ^ 52) \<le> q"
    by (simp add: q_def)
  have "a * 2 ^ k < 1000 * 2 ^ 53"
  proof (cases "k = 0")
    case True
    with small show ?thesis by simp
  next
    case False
    then have "0 < binade_shift 62 a 0" by (simp add: k_def)
    then have "a * 2 ^ (k - 1) < 1000 * 2 ^ 52"
      unfolding k_def by (rule binade_shift_least)
    then have "2 * (a * 2 ^ (k - 1)) < 2 * (1000 * 2 ^ 52)"
      by (simp only: mult_less_cancel_left_pos zero_less_numeral)
    moreover from False have "a * 2 ^ k = 2 * (a * 2 ^ (k - 1))"
      by (cases k) simp_all
    ultimately have "a * 2 ^ k < 2 * (1000 * 2 ^ 52)"
      by (simp only:)
    then show ?thesis by simp
  qed
  then have "(of_int (a * 2 ^ k) :: rat) < of_int (1000 * 2 ^ 53)"
    by (simp only: of_int_less_iff)
  then have hi: "q \<le> of_int (2 ^ 53)"
    by (simp add: q_def)
  from round_half_even_between [OF lo hi] have m: "2 ^ 52 \<le> m" "m \<le> 2 ^ 53"
    by (simp_all add: m_def)
  have k: "k \<le> 62"
    using binade_shift_bounds [of 0 62 a] by (simp add: k_def)
  have near: "\<bar>of_int m - q\<bar> \<le> 1 / 2"
    unfolding m_def by (rule round_half_even_error)
  have "div1000_double ms = of_int (sgn ms * m) / 2 ^ k"
    by (simp add: div1000_double_def Let_def a_def k_def q_def m_def)
  with m k near show ?thesis
    unfolding q_def a_def by blast
qed

section \<open>The script's functions in closed form\<close>

lemma find_not_None: "(find P xs \<noteq> None) = list_ex P xs"
  by (induction xs) simp_all

lemma loadCookies_eq:
  "loadCookies w s =
     (Inr (), s\<lparr>cookieJar := loadedJar w s, trace := trace s @ [ReadFile config_cookieFilePath]\<rparr>)"
  by (simp add: loadCookies_def loadCookies_try_def loadedJar_def emit_def Let_def
           split: option.splits)

lemma hasValidSession_eq:
  "hasValidSession w s = (Inr (sessionValid w (cookieJar s)), s)"
  by (simp add: hasValidSession_def sessionValid_def Let_def find_not_None del: not_None_eq)

lemma authenticate_loop_accepts:
  "fst (authenticate_loop w hs j) = Inr () \<longleftrightarrow> mergeAll w j hs \<noteq> None"
  by (induction hs arbitrary: j) (simp_all split: option.splits)

lemma authenticate_loop_merged:
  "mergeAll w j hs = Some j' \<Longrightarrow> authenticate_loop w hs j = (Inr (), j')"
  by (induction hs arbitrary: j) (simp_all split: option.splits)

lemma authenticate_loop_refused:
  "fst (authenticate_loop w hs j) = Inl e \<Longrightarrow>
   \<exists>pre c post. hs = pre @ c # post \<and> e = SetCookieRejected c \<and>
     mergeAll w j pre = Some (snd (authenticate_loop w hs j)) \<and>
     setCookie w (snd (authenticate_loop w hs j)) c config_domain = None"
proof (induction hs arbitrary: j)
  case Nil
  then show ?case by simp
next
  case (Cons h hs)
  show ?case
  proof (cases "setCookie w j h config_domain")
    case None
    with Cons.prems have "h # hs = [] @ h # hs \<and> e = SetCookieRejected h \<and>
        mergeAll w j [] = Some (snd (authenticate_loop w (h # hs) j)) \<and>
        setCookie w (snd (authenticate_loop w (h # hs) j)) h config_domain = None"
      by simp
    then show ?thesis by blast
  next
    case (Some j')
    with Cons.prems have "fst (authenticate_loop w hs j') = Inl e" by simp
    from Cons.IH [OF this] obtain pre c post where
      "hs = pre @ c # post" "e = SetCookieRejected c"
      "mergeAll w j' pre = Some (snd (authenticate_loop w hs j'))"
      "setCookie w (snd (authenticate_loop w hs j')) c config_domain = None"
      by blast
    with Some have "h # hs = (h # pre) @ c # post \<and> e = SetCookieRejected c \<and>
        mergeAll w j (h # pre) = Some (snd (authenticate_loop w (h # hs) j)) \<and>
        setCookie w (snd (authenticate_loop w (h # hs) j)) c config_domain = None"
      by simp
    then show ?thesis by blast
  qed
qed

lemma authenticate_cases
  [case_names no_response no_text no_nonce no_answer rejected refused accepted]:
  obtains
    (no_response) "fetch w loginPageRequest = None"
      "authenticate w s = (Inl (FetchFailed loginPageRequest),
         s\<lparr>trace := trace s @ [Fetch loginPageRequest]\<rparr>)"
  | (no_text) page where "fetch w loginPageRequest = Some page" "text_body page = None"
      "authenticate w s = (Inl TextFailed, s\<lparr>trace := trace s @ [Fetch loginPageRequest]\<rparr>)"
  | (no_nonce) page html where "fetch w loginPageRequest = Some page"
      "text_body page = Some html" "val (select w html nonceSelector) = None"
      "authenticate w s = (Inl ProtocolError, s\<lparr>trace := trace s @ [Fetch loginPageRequest]\<rparr>)"
  | (no_answer) page html n where "fetch w loginPageRequest = Some page"
      "text_body page = Some html" "val (select w html nonceSelector) = Some n"
      "fetch w (loginSubmitRequest n) = None"
      "authenticate w s = (Inl (FetchFailed (loginSubmitRequest n)),
         s\<lparr>trace := trace s @ [Fetch loginPageRequest, Fetch (loginSubmitRequest n)]\<rparr>)"
  | (rejected) page html n r where "fetch w loginPageRequest = Some page"
      "text_body page = Some html" "val (select w html nonceSelector) = Some n"
      "fetch w (loginSubmitRequest n) = Some r"
      "status r \<noteq> 302 \<or> getSetCookie r = []"
      "authenticate w s = (Inl AuthenticationError,
         s\<lparr>trace := trace s @ [Fetch loginPageRequest, Fetch (loginSubmitRequest n)]\<rparr>)"
  | (refused) page html n r pre c post j' where "fetch w loginPageRequest = Some page"
      "text_body page = Some html" "val (select w html nonceSelector) = Some n"
      "fetch w (loginSubmitRequest n) = Some r"
      "status r = 302" "getSetCookie r = pre @ c # post"
      "mergeAll w (cookieJar s) pre = Some j'" "setCookie w j' c config_domain = None"
      "authenticate w s = (Inl (SetCookieRejected c),
         s\<lparr>cookieJar := j',
           trace := trace s @ [Fetch loginPageRequest, Fetch (loginSubmitRequest n)]\<rparr>)"
  | (accepted) page html n r j' where "fetch w loginPageRequest = Some page"
      "text_body page = Some html" "val (select w html nonceSelector) = Some n"
      "fetch w (loginSubmitRequest n) = Some r"
      "status r = 302" "getSetCookie r \<noteq> []"
      "mergeAll w (cookieJar s) (getSetCookie r) = Some j'"
      "authenticate w s = (Inr (),
         s\<lparr>cookieJar := j',
           trace := trace s @ [Fetch loginPageRequest, Fetch (loginSubmitRequest n)]\<rparr>)"
proof (cases "fetch w loginPageRequest")
  case None
  then show ?thesis
    using no_response by (simp add: authenticate_def emit_def)
next
  case page: (Some page)
  show ?thesis
  proof (cases "text_body page")
    case None
    with page show ?thesis
      using no_text by (simp add: authenticate_def emit_def)
  next
    case html: (Some html)
    show ?thesis
    proof (cases "val (select w html nonceSelector)")
      case None
      with page html show ?thesis
        using no_nonce by (simp add: authenticate_def emit_def ProtocolError_def)
    next
      case n: (Some n)
      show ?thesis
      proof (cases "fetch w (loginSubmitRequest n)")
        case None
        with page html n show ?thesis
          using no_answer by (simp add: authenticate_def emit_def)
      next
        case r: (Some r)
        show ?thesis
        proof (cases "status r \<noteq> 302 \<or> getSetCookie r = []")
          case True
          with page html n r show ?thesis
            using rejected by (simp add: authenticate_def emit_def AuthenticationError_def)
        next
          case good: False
          have body: "authenticate w s =
              (fst (authenticate_loop w (getSetCookie r) (cookieJar s)),
               s\<lparr>cookieJar := snd (authenticate_loop w (getSetCookie r) (cookieJar s)),
                 trace := trace s @ [Fetch loginPageRequest, Fetch (loginSubmitRequest n)]\<rparr>)"
            using page html n r good
            by (simp add: authenticate_def emit_def Let_def split: prod.splits)
          show ?thesis
          proof (cases "fst (authenticate_loop w (getSetCookie r) (cookieJar s))")
            case (Inl e)
            from authenticate_loop_refused [OF this] obtain pre c post where
              "getSetCookie r = pre @ c # post" "e = SetCookieRejected c"
              "mergeAll w (cookieJar s) pre =
                 Some (snd (authenticate_loop w (getSetCookie r) (cookieJar s)))"
              "setCookie w (snd (authenticate_loop w (getSetCookie r) (cookieJar s))) c
                 config_domain = None"
              by blast
            with page html n r good Inl body show ?thesis
              using refused by simp
          next
            case (Inr u)
            then have "mergeAll w (cookieJar s) (getSetCookie r) \<noteq> None"
              by (simp add: authenticate_loop_accepts)
            then obtain j' where j': "mergeAll w (cookieJar s) (getSetCookie r) = Some j'"
              by blast
            with page html n r good body show ?thesis
              using accepted by (simp add: authenticate_loop_merged)
          qed
        qed
      qed
    qed
  qed
qed

lemma browserOnlyI:
  assumes "\<And>s. cookieJar (snd (f s)) = cookieJar s"
    and "\<And>s. cookieFile (snd (f s)) = cookieFile s"
    and "\<And>s. outputFile (snd (f s)) = outputFile s"
    and "\<And>s. \<exists>evs. trace (snd (f s)) = trace s @ evs \<and> list_all isBrowserEvent evs"
    and "\<And>s e. fst (f s) = Inl e \<Longrightarrow> \<exists>ev. e = BrowserFailed ev"
  shows "browserOnly f"
  using assms by (simp add: browserOnly_def)

lemma browserOnlyD:
  assumes "browserOnly f"
  shows "cookieJar (snd (f s)) = cookieJar s" "cookieFile (snd (f s)) = cookieFile s"
    "outputFile (snd (f s)) = outputFile s"
    "\<exists>evs. trace (snd (f s)) = trace s @ evs \<and> list_all isBrowserEvent evs"
    "fst (f s) = Inl e \<Longrightarrow> \<exists>ev. e = BrowserFailed ev"
  using assms unfolding browserOnly_def by blast+

lemma browserOnly_browserCall:
  "isBrowserEvent e \<Longrightarrow> browserOnly (browserCall w e)"
  by (rule browserOnlyI) (auto simp: browserCall_def emit_def split: if_splits)

lemma browserOnly_andThen:
  assumes f: "browserOnly f" and g: "\<And>x. browserOnly (g x)"
  shows "browserOnly (andThen f g)"
proof (rule browserOnlyI)
  fix s
  obtain r s1 where fs: "f s = (r, s1)" by (cases "f s")
  from browserOnlyD [OF f, of s] fs
  have f1: "cookieJar s1 = cookieJar s" "cookieFile s1 = cookieFile s"
    "outputFile s1 = outputFile s"
    and "\<exists>evs. trace s1 = trace s @ evs \<and> list_all isBrowserEvent evs"
    and fe: "\<And>e. r = Inl e \<Longrightarrow> \<exists>ev. e = BrowserFailed ev"
    by simp_all
  then obtain evs1 where t1: "trace s1 = trace s @ evs1" "list_all isBrowserEvent evs1"
    by blast
  have "cookieJar (snd (andThen f g s)) = cookieJar s
    \<and> cookieFile (snd (andThen f g s)) = cookieFile s
    \<and> outputFile (snd (andThen f g s)) = outputFile s
    \<and> (\<exists>evs. trace (snd (andThen f g s)) = trace s @ evs \<and> list_all isBrowserEvent evs)
    \<and> (\<forall>e. fst (andThen f g s) = Inl e \<longrightarrow> (\<exists>ev. e = BrowserFailed ev))"
  proof (cases r)
    case (Inl e)
    with fs f1 t1 fe [of e] show ?thesis by (auto simp: andThen_def)
  next
    case (Inr x)
    with fs have a: "andThen f g s = g x s1" by (simp add: andThen_def)
    from browserOnlyD [OF g [of x], of s1] obtain evs2 where
      "cookieJar (snd (g x s1)) = cookieJar s1"
      "cookieFile (snd (g x s1)) = cookieFile s1" "outputFile (snd (g x s1)) = outputFile s1"
      "trace (snd (g x s1)) = trace s1 @ evs2" "list_all isBrowserEvent evs2"
      "\<And>e. fst (g x s1) = Inl e \<Longrightarrow> \<exists>ev. e = BrowserFailed ev"
      by blast
    with f1 t1 a have "cookieJar (snd (andThen f g s)) = cookieJar s"
      "cookieFile (snd (andThen f g s)) = cookieFile s"
      "outputFile (snd (andThen f g s)) = outputFile s"
      "trace (snd (andThen f g s)) = trace s @ (evs1 @ evs2)"
      "list_all isBrowserEvent (evs1 @ evs2)"
      "\<And>e. fst (andThen f g s) = Inl e \<Longrightarrow> \<exists>ev. e = BrowserFailed ev"
      by simp_all
    then show ?thesis by blast
  qed
  then show "cookieJar (snd (andThen f g s)) = cookieJar s"
    "cookieFile (snd (andThen f g s)) = cookieFile s"
    "outputFile (snd (andThen f g s)) = outputFile s"
    "\<exists>evs. trace (snd (andThen f g s)) = trace s @ evs \<and> list_all isBrowserEvent evs"
    "\<And>e. fst (andThen f g s) = Inl e \<Longrightarrow> \<exists>ev. e = BrowserFailed ev"
    by blast+
qed

lemma browserOnly_fetchData_loop: "browserOnly (fetchData_loop w cs)"
proof (induction cs)
  case Nil
  show ?case by (rule browserOnlyI) simp_all
next
  case (Cons c cs)
  have "fetchData_loop w (c # cs) =
      andThen (browserCall w (PageSetCookie c))
        (\<lambda>_ s'. fetchData_loop w cs (s'\<lparr>pageCookies := pageCookies s' @ [c]\<rparr>))"
    by (rule ext) (simp add: andThen_def split: prod.splits sum.splits)
  moreover have "browserOnly (\<lambda>s'. fetchData_loop w cs (s'\<lparr>pageCookies := pageCookies s' @ [c]\<rparr>))"
  proof (rule browserOnlyI)
    fix s :: "'a state"
    let ?s = "s\<lparr>pageCookies := pageCookies s @ [c]\<rparr>"
    from browserOnlyD [OF Cons, of ?s]
    show "cookieJar (snd (fetchData_loop w cs ?s)) = cookieJar s"
      "cookieFile (snd (fetchData_loop w cs ?s)) = cookieFile s"
      "outputFile (snd (fetchData_loop w cs ?s)) = outputFile s"
      "\<exists>evs. trace (snd (fetchData_loop w cs ?s)) = trace s @ evs \<and> list_all isBrowserEvent evs"
      "\<And>e. fst (fetchData_loop w cs ?s) = Inl e \<Longrightarrow> \<exists>ev. e = BrowserFailed ev"
      by simp_all
  qed
  ultimately show ?case
    by (simp add: browserOnly_andThen browserOnly_browserCall)
qed

lemma fetchData_loop_done:
  "fst (fetchData_loop w cs s) = Inr u \<Longrightarrow>
   snd (fetchData_loop w cs s) =
     s\<lparr>pageCookies := pageCookies s @ cs, trace := trace s @ map PageSetCookie cs\<rparr>"
proof (induction cs arbitrary: s)
  case Nil
  then show ?case by simp
next
  case (Cons c cs)
  then show ?case
    by (simp add: browserCall_def emit_def split: if_splits)
qed

lemma browserOnly_fetchData_browser: "browserOnly (fetchData_browser w)"
proof -
  have chain: "browserOnly
     (andThen (browserCall w Launch) (\<lambda>_.
      andThen (browserCall w NewPage) (\<lambda>_.
      andThen (\<lambda>s'. fetchData_loop w
                 (map toPuppeteerCookie (getCookies w (cookieJar s') config_domain)) s') (\<lambda>_.
      andThen (browserCall w (Goto config_settingsPageUrl)) (\<lambda>_.
      andThen (browserCall w (WaitForSelector ''form.space-y-4 input'')) (\<lambda>_.
      andThen (browserCall w Content) (\<lambda>_.
      andThen (browserCall w Close) (\<lambda>_ s'.
      (Inr (pageContent w (pageCookies s') config_settingsPageUrl), s')))))))))"
  proof (intro browserOnly_andThen browserOnly_browserCall)
    show "browserOnly (\<lambda>s'. fetchData_loop w
                 (map toPuppeteerCookie (getCookies w (cookieJar s') config_domain)) s')"
      by (rule browserOnlyI) (rule browserOnlyD [OF browserOnly_fetchData_loop])+
    show "browserOnly (\<lambda>s'. (Inr (pageContent w (pageCookies s') config_settingsPageUrl), s'))"
      by (rule browserOnlyI) simp_all
  qed simp_all
  show ?thesis
  proof (rule browserOnlyI)
    fix s :: "'a state"
    from browserOnlyD [OF chain, of "s\<lparr>pageCookies := []\<rparr>"]
    show "cookieJar (snd (fetchData_browser w s)) = cookieJar s"
      "cookieFile (snd (fetchData_browser w s)) = cookieFile s"
      "outputFile (snd (fetchData_browser w s)) = outputFile s"
      "\<exists>evs. trace (snd (fetchData_browser w s)) = trace s @ evs \<and> list_all isBrowserEvent evs"
      "\<And>e. fst (fetchData_browser w s) = Inl e \<Longrightarrow> \<exists>ev. e = BrowserFailed ev"
      by (simp_all add: fetchData_browser_def)
  qed
qed


lemma fetchData_browser_done:
  assumes finished: "fst (fetchData_browser w s) = Inr html"
  shows "html = pageContent w (map toPuppeteerCookie (getCookies w (cookieJar s) config_domain))
                  config_settingsPageUrl"
    and "snd (fetchData_browser w s) =
      s\<lparr>pageCookies := map toPuppeteerCookie (getCookies w (cookieJar s) config_domain),
        trace := trace s @ [Launch, NewPage]
          @ map (\<lambda>c. PageSetCookie (toPuppeteerCookie c)) (getCookies w (cookieJar s) config_domain)
          @ [Goto config_settingsPageUrl, WaitForSelector ''form.space-y-4 input'',
             Content, Close]\<rparr>"
proof -
  let ?cs = "map toPuppeteerCookie (getCookies w (cookieJar s) config_domain)"
  let ?s2 = "s\<lparr>pageCookies := [], trace := trace s @ [Launch, NewPage]\<rparr>"
  obtain r s3 where loop: "fetchData_loop w ?cs ?s2 = (r, s3)"
    by (cases "fetchData_loop w ?cs ?s2")
  from finished have launched: "browserOk w [] Launch" "browserOk w [] NewPage"
    by (auto simp: fetchData_browser_def andThen_def browserCall_def emit_def split: if_splits)
  with finished loop have r: "r = Inr ()"
    by (cases r) (simp_all add: fetchData_browser_def andThen_def browserCall_def emit_def)
  with loop fetchData_loop_done [of w ?cs ?s2 "()"]
  have s3: "s3 = s\<lparr>pageCookies := ?cs, trace := trace s @ [Launch, NewPage] @ map PageSetCookie ?cs\<rparr>"
    by simp
  from finished launched loop r s3
  have both: "html = pageContent w ?cs config_settingsPageUrl \<and>
    snd (fetchData_browser w s) =
      s\<lparr>pageCookies := ?cs,
        trace := trace s @ [Launch, NewPage] @ map PageSetCookie ?cs
          @ [Goto config_settingsPageUrl, WaitForSelector ''form.space-y-4 input'',
             Content, Close]\<rparr>"
    by (simp add: fetchData_browser_def andThen_def browserCall_def emit_def split: if_splits)
  then show "html = pageContent w ?cs config_settingsPageUrl" by simp
  from both show "snd (fetchData_browser w s) =
      s\<lparr>pageCookies := ?cs,
        trace := trace s @ [Launch, NewPage]
          @ map (\<lambda>c. PageSetCookie (toPuppeteerCookie c)) (getCookies w (cookieJar s) config_domain)
          @ [Goto config_settingsPageUrl, WaitForSelector ''form.space-y-4 input'',
             Content, Close]\<rparr>"
    by (simp add: comp_def)
qed

lemma fetchData_frame:
  "cookieJar (snd (fetchData w s)) = cookieJar s"
  "cookieFile (snd (fetchData w s)) = cookieFile s"
  "outputFile (snd (fetchData w s)) = outputFile s"
  using browserOnlyD(1-3) [OF browserOnly_fetchData_browser,
          of w "s\<lparr>trace := trace s @
            [Fetch (usersRequest (getCookieString w (cookieJar s) config_domain))]\<rparr>"]
  by (auto simp: fetchData_def emit_def Let_def split: option.splits prod.splits sum.splits)

lemma fetchData_trace:
  "\<exists>evs. trace (snd (fetchData w s)) =
          trace s @ Fetch (usersRequest (getCookieString w (cookieJar s) config_domain)) # evs \<and>
        list_all isBrowserEvent evs"
proof -
  let ?s1 = "s\<lparr>trace := trace s @
            [Fetch (usersRequest (getCookieString w (cookieJar s) config_domain))]\<rparr>"
  from browserOnlyD(4) [OF browserOnly_fetchData_browser, of w ?s1]
  obtain evs where "trace (snd (fetchData_browser w ?s1)) = trace ?s1 @ evs"
    "list_all isBrowserEvent evs"
    by blast
  then have "trace (snd (fetchData w s)) = trace ?s1 @ evs \<or> trace (snd (fetchData w s)) = trace ?s1 @ []"
    by (auto simp: fetchData_def emit_def Let_def split: option.splits prod.splits sum.splits)
  with \<open>list_all isBrowserEvent evs\<close> show ?thesis
    by (elim disjE) (intro exI [of _ evs], simp, intro exI [of _ "[]"], simp)
qed

lemma fetchData_done:
  assumes finished: "fst (fetchData w s) = Inr allData"
  shows "\<exists>r userList. usersResponse w (cookieJar s) = Some r \<and> ok r \<and>
           json r = Some userList \<and>
           allData = userList @ [currentUser (settingsInputs w (cookieJar s))]"
    and "snd (fetchData w s) =
      s\<lparr>pageCookies := map toPuppeteerCookie (getCookies w (cookieJar s) config_domain),
        trace := trace s @ fetchEvents w (cookieJar s)\<rparr>"
proof -
  let ?req = "usersRequest (getCookieString w (cookieJar s) config_domain)"
  let ?s1 = "s\<lparr>trace := trace s @ [Fetch ?req]\<rparr>"
  from finished obtain r userList html where
    r: "fetch w ?req = Some r" "ok r" "json r = Some userList" and
    b: "fst (fetchData_browser w ?s1) = Inr html" and
    d: "allData = userList @ [currentUser (select w html ''form input'')]" and
    st: "snd (fetchData w s) = snd (fetchData_browser w ?s1)"
    by (auto simp: fetchData_def emit_def Let_def
             split: option.splits prod.splits sum.splits if_splits)
  from fetchData_browser_done [OF b] r d
  show "\<exists>r userList. usersResponse w (cookieJar s) = Some r \<and> ok r \<and>
           json r = Some userList \<and>
           allData = userList @ [currentUser (settingsInputs w (cookieJar s))]"
    by (simp add: usersResponse_def settingsInputs_def)
  from fetchData_browser_done(2) [OF b] st
  show "snd (fetchData w s) =
      s\<lparr>pageCookies := map toPuppeteerCookie (getCookies w (cookieJar s) config_domain),
        trace := trace s @ fetchEvents w (cookieJar s)\<rparr>"
    by (simp add: fetchEvents_def)
qed



lemma fetchAndWrite_frame:
  "cookieJar (snd (fetchAndWrite w s)) = cookieJar s"
  "cookieFile (snd (fetchAndWrite w s)) = cookieFile s"
  using fetchData_frame(1,2) [of w s]
  by (auto simp: fetchAndWrite_def writeOutput_def emit_def Let_def
           split: prod.splits sum.splits)

lemma fetchAndWrite_trace:
  "\<exists>evs. trace (snd (fetchAndWrite w s)) =
          trace s @ Fetch (usersRequest (getCookieString w (cookieJar s) config_domain)) # evs \<and>
        filter isLoginRequest evs = [] \<and> WriteFile config_cookieFilePath \<notin> set evs \<and>
        (\<forall>r. Fetch r \<notin> set evs)"
proof -
  from fetchData_trace [of w s] obtain evs where
    t: "trace (snd (fetchData w s)) =
          trace s @ Fetch (usersRequest (getCookieString w (cookieJar s) config_domain)) # evs"
    and b: "list_all isBrowserEvent evs"
    by blast
  have diff: "config_cookieFilePath \<noteq> config_outputFilePath"
    by (simp add: config_cookieFilePath_def config_outputFilePath_def)
  from b have clean: "filter isLoginRequest evs = []" "WriteFile p \<notin> set evs"
    "Fetch r \<notin> set evs" for p r
    by (induction evs) (auto elim: isBrowserEvent.elims isLoginRequest.elims)
  from t have "trace (snd (fetchAndWrite w s)) =
      trace s @ Fetch (usersRequest (getCookieString w (cookieJar s) config_domain)) # evs
    \<or> trace (snd (fetchAndWrite w s)) =
      trace s @ Fetch (usersRequest (getCookieString w (cookieJar s) config_domain)) #
        (evs @ [WriteFile config_outputFilePath])"
    by (auto simp: fetchAndWrite_def writeOutput_def emit_def Let_def
             split: prod.splits sum.splits)
  then show ?thesis
  proof
    assume "trace (snd (fetchAndWrite w s)) =
      trace s @ Fetch (usersRequest (getCookieString w (cookieJar s) config_domain)) # evs"
    with clean show ?thesis by blast
  next
    assume "trace (snd (fetchAndWrite w s)) =
      trace s @ Fetch (usersRequest (getCookieString w (cookieJar s) config_domain)) #
        (evs @ [WriteFile config_outputFilePath])"
    moreover from clean diff
    have "filter isLoginRequest (evs @ [WriteFile config_outputFilePath]) = []"
      "WriteFile config_cookieFilePath \<notin> set (evs @ [WriteFile config_outputFilePath])"
      "\<forall>r. Fetch r \<notin> set (evs @ [WriteFile config_outputFilePath])"
      by simp_all
    ultimately show ?thesis by blast
  qed
qed

lemma fetchAndWrite_done:
  assumes "fst (fetchAndWrite w s) = 0"
  shows "\<exists>userList. usersList w (cookieJar s) = Some userList \<and>
      outputFile (snd (fetchAndWrite w s)) =
        Some (userList @ [currentUser (settingsInputs w (cookieJar s))])"
proof -
  from assms obtain allData where d: "fst (fetchData w s) = Inr allData"
    and out: "outputFile (snd (fetchAndWrite w s)) = Some allData"
    by (auto simp: fetchAndWrite_def writeOutput_def emit_def Let_def
             split: prod.splits sum.splits if_splits)
  from fetchData_done(1) [OF d] out show ?thesis
    by (auto simp: usersList_def)
qed

lemma main_steps:
  "main w s =
     (let s1 = s\<lparr>cookieJar := loadedJar w s, trace := trace s @ [ReadFile config_cookieFilePath]\<rparr>
      in if sessionValid w (loadedJar w s)
         then fetchAndWrite w s1
         else (case authenticate w s1 of
                 (Inl e, s2) \<Rightarrow> (1, s2)
               | (Inr u, s2) \<Rightarrow>
                   if writeFileOk w config_cookieFilePath
                   then fetchAndWrite w
                          (s2\<lparr>trace := trace s2 @ [WriteFile config_cookieFilePath],
                              cookieFile := Some (toJSON w (cookieJar s2))\<rparr>)
                   else (1, s2\<lparr>trace := trace s2 @ [WriteFile config_cookieFilePath]\<rparr>)))"
  by (auto simp: main_def main_try_def andThen_def loadCookies_eq hasValidSession_eq
        fetchAndWrite_def saveCookies_def emit_def Let_def split: prod.splits sum.splits)

lemma mergeAll_append:
  "mergeAll w j (xs @ ys) =
     (case mergeAll w j xs of None \<Rightarrow> None | Some j' \<Rightarrow> mergeAll w j' ys)"
  by (induction xs arbitrary: j) (simp_all split: option.splits)

lemmas login_defs = loginPage_def loginNonce_def nonceMissing_def loginResponse_def

lemma authenticate_succeeds_iff:
  "fst (authenticate w s) = Inr () \<longleftrightarrow>
     (\<exists>n r. loginNonce w = Some n \<and> loginResponse w n = Some r \<and> status r = 302 \<and>
            getSetCookie r \<noteq> [] \<and> mergeAll w (cookieJar s) (getSetCookie r) \<noteq> None)"
  by (cases rule: authenticate_cases [of w s])
     (auto simp: login_defs mergeAll_append)

lemma authenticate_merged:
  "fst (authenticate w s) = Inr () \<Longrightarrow>
   \<exists>n r. loginNonce w = Some n \<and> loginResponse w n = Some r \<and>
         mergeAll w (cookieJar s) (getSetCookie r) = Some (cookieJar (snd (authenticate w s)))"
  by (cases rule: authenticate_cases [of w s]) (auto simp: login_defs)

lemma authenticate_trace:
  "trace (snd (authenticate w s)) = trace s @ authEvents w"
  by (cases rule: authenticate_cases [of w s]) (auto simp: login_defs authEvents_def)

lemma authenticate_files:
  "cookieFile (snd (authenticate w s)) = cookieFile s"
  "outputFile (snd (authenticate w s)) = outputFile s"
  "pageCookies (snd (authenticate w s)) = pageCookies s"
  by (cases rule: authenticate_cases [of w s]; simp)+

lemma main_cases [case_names valid auth_failed save_failed fresh]:
  fixes w :: "'jar world" and s :: "'jar state"
  defines "s1 \<equiv> s\<lparr>cookieJar := loadedJar w s, trace := trace s @ [ReadFile config_cookieFilePath]\<rparr>"
  obtains
    (valid) "sessionValid w (loadedJar w s)" "main w s = fetchAndWrite w s1"
  | (auth_failed) e where "\<not> sessionValid w (loadedJar w s)"
      "fst (authenticate w s1) = Inl e" "main w s = (1, snd (authenticate w s1))"
  | (save_failed) "\<not> sessionValid w (loadedJar w s)"
      "fst (authenticate w s1) = Inr ()" "\<not> writeFileOk w config_cookieFilePath"
      "main w s = (1, (snd (authenticate w s1))
         \<lparr>trace := trace (snd (authenticate w s1)) @ [WriteFile config_cookieFilePath]\<rparr>)"
  | (fresh) "\<not> sessionValid w (loadedJar w s)"
      "fst (authenticate w s1) = Inr ()" "writeFileOk w config_cookieFilePath"
      "main w s = fetchAndWrite w ((snd (authenticate w s1))
         \<lparr>trace := trace (snd (authenticate w s1)) @ [WriteFile config_cookieFilePath],
           cookieFile := Some (toJSON w (cookieJar (snd (authenticate w s1))))\<rparr>)"
proof (cases "sessionValid w (loadedJar w s)")
  case True
  then show ?thesis using valid by (simp add: main_steps s1_def)
next
  case invalid: False
  obtain r s2 where a: "authenticate w s1 = (r, s2)" by (cases "authenticate w s1")
  show ?thesis
  proof (cases r)
    case (Inl e)
    with invalid a show ?thesis
      using auth_failed [of e] by (simp add: main_steps s1_def [symmetric] Let_def)
  next
    case (Inr u)
    show ?thesis
    proof (cases "writeFileOk w config_cookieFilePath")
      case True
      with invalid a Inr show ?thesis
        using fresh by (simp add: main_steps s1_def [symmetric] Let_def)
    next
      case False
      with invalid a Inr show ?thesis
        using save_failed by (simp add: main_steps s1_def [symmetric] Let_def)
    qed
  qed
qed

lemma main_jar_output:
  assumes "fst (main w s0) = 0"
  shows "\<exists>userList. usersList w (cookieJar (snd (main w s0))) = Some userList \<and>
     outputFile (snd (main w s0)) =
       Some (userList @ [currentUser (settingsInputs w (cookieJar (snd (main w s0))))])"
proof (cases rule: main_cases [of w s0])
  case valid
  let ?s1 = "s0\<lparr>cookieJar := loadedJar w s0,
                  trace := trace s0 @ [ReadFile config_cookieFilePath]\<rparr>"
  from assms valid(2) have "fst (fetchAndWrite w ?s1) = 0" by simp
  from fetchAndWrite_done [OF this] valid(2) show ?thesis
    by (simp add: fetchAndWrite_frame)
next
  case (auth_failed e)
  with assms show ?thesis by simp
next
  case save_failed
  with assms show ?thesis by simp
next
  case fresh
  let ?s2 = "snd (authenticate w (s0\<lparr>cookieJar := loadedJar w s0,
                  trace := trace s0 @ [ReadFile config_cookieFilePath]\<rparr>))"
  let ?s3 = "?s2\<lparr>trace := trace ?s2 @ [WriteFile config_cookieFilePath],
           cookieFile := Some (toJSON w (cookieJar ?s2))\<rparr>"
  from assms fresh(4) have "fst (fetchAndWrite w ?s3) = 0" by simp
  from fetchAndWrite_done [OF this] fresh(4) show ?thesis
    by (simp add: fetchAndWrite_frame)
qed

lemmas demo_defs = demo_w_def demo_partial_w_def demo_no_nonce_w_def demo_two_nonce_w_def
  demo_rejected_w_def demo_no_cookie_w_def demo_theme_w_def demo_refused_w_def
  demo_users_401_w_def demo_bad_json_w_def demo_timeout_w_def demo_sparse_w_def
  demo_sparseInputs_def demo_world_def demo_authRes_def demo_usersRes_def
  demo_nonceInputs_def demo_formInputs_def demo_loginPage_def demo_user_def
  demo_partialUser_def demo_cookie_def demo_fromJSON_def demo_setCookie_def input_el_def
  initial_def

lemmas statement_defs = sessionValid_def loadedJar_def loginPage_def loginNonce_def
  nonceMissing_def loginResponse_def usersResponse_def usersList_def settingsInputs_def
  fetchEvents_def authEvents_def isSessionCookie_def
  currentUser_def val_def eq_def attr_def orEmpty_def ok_def
  nonceSelector_def loginPageRequest_def loginSubmitRequest_def usersRequest_def
  toPuppeteerCookie_def

lemmas config_defs = config_loginUrl_def config_usersApiUrl_def config_domain_def
  config_settingsPageUrl_def config_username_def config_password_def
  config_cookieFilePath_def config_outputFilePath_def

lemmas script_defs = main_def main_try_def andThen_def emit_def loadCookies_def
  loadCookies_try_def saveCookies_def hasValidSession_def authenticate_def
  browserCall_def fetchData_browser_def fetchData_def writeOutput_def Let_def

lemma request_urls [simp]:
  "url loginPageRequest = config_loginUrl"
  "url (loginSubmitRequest n) = config_loginUrl"
  "url (usersRequest c) = config_usersApiUrl"
  "config_loginUrl \<noteq> config_usersApiUrl"
  "config_usersApiUrl \<noteq> config_loginUrl"
  "loginPageRequest \<noteq> loginSubmitRequest n"
  by (simp_all add: loginPageRequest_def loginSubmitRequest_def usersRequest_def config_defs)

lemma paths_differ [simp]:
  "config_cookieFilePath \<noteq> config_outputFilePath"
  "config_outputFilePath \<noteq> config_cookieFilePath"
  by (simp_all add: config_defs)

lemma authEvents_cases:
  "authEvents w = [Fetch loginPageRequest] \<and> loginNonce w = None \<or>
   (\<exists>n. authEvents w = [Fetch loginPageRequest, Fetch (loginSubmitRequest n)] \<and>
        loginNonce w = Some n)"
  by (cases "loginNonce w") (simp_all add: authEvents_def)

lemma authEvents_login [simp]:
  "filter isLoginRequest (authEvents w) = authEvents w"
  "authEvents w \<noteq> []"
  "WriteFile p \<notin> set (authEvents w)"
  "list_ex isAuthenticatedFetch (authEvents w) = False"
  "takeWhile (\<lambda>e. \<not> isAuthenticatedFetch e) (authEvents w @ rest) =
     authEvents w @ takeWhile (\<lambda>e. \<not> isAuthenticatedFetch e) rest"
  using authEvents_cases [of w] by auto

lemma main_trace:
  fixes w :: "'jar world" and s :: "'jar state"
  defines "s1 \<equiv> snd (loadCookies w s)"
  shows "\<exists>evs. trace (snd (main w s)) =
       trace s @ ReadFile config_cookieFilePath #
         (if sessionValid w (loadedJar w s) then []
          else authEvents w @
               (if fst (authenticate w s1) = Inr () then [WriteFile config_cookieFilePath]
                else [])) @ evs \<and>
     filter isLoginRequest evs = [] \<and>
     WriteFile config_cookieFilePath \<notin> set evs \<and>
     (evs = [] \<longleftrightarrow>
        \<not> (sessionValid w (loadedJar w s) \<or>
           fst (authenticate w s1) = Inr () \<and> writeFileOk w config_cookieFilePath)) \<and>
     (evs = [] \<or>
      (\<exists>evs'. evs = Fetch (usersRequest
                 (getCookieString w (cookieJar (snd (main w s))) config_domain)) # evs' \<and>
              (\<forall>r. Fetch r \<notin> set evs')))"
proof -
  let ?s1 = "s\<lparr>cookieJar := loadedJar w s,
                trace := trace s @ [ReadFile config_cookieFilePath]\<rparr>"
  have s1: "s1 = ?s1" by (simp add: s1_def loadCookies_eq)
  show ?thesis
  proof (cases rule: main_cases [of w s])
    case valid
    from fetchAndWrite_trace [of w ?s1] obtain evs where
      t: "trace (snd (fetchAndWrite w ?s1)) =
            trace ?s1 @ Fetch (usersRequest (getCookieString w (cookieJar ?s1) config_domain)) # evs"
      and e: "filter isLoginRequest evs = []" "WriteFile config_cookieFilePath \<notin> set evs"
        "\<forall>r. Fetch r \<notin> set evs"
      by blast
    let ?evs = "Fetch (usersRequest (getCookieString w (cookieJar ?s1) config_domain)) # evs"
    have "trace (snd (main w s)) =
        trace s @ ReadFile config_cookieFilePath # [] @ ?evs"
      using valid(2) t by simp
    moreover have "cookieJar (snd (main w s)) = cookieJar ?s1"
      using valid(2) by (simp add: fetchAndWrite_frame)
    ultimately show ?thesis
      using valid(1) e by (intro exI [of _ ?evs]) simp
  next
    case (auth_failed e)
    then show ?thesis
      by (intro exI [of _ "[]"]) (simp add: authenticate_trace s1)
  next
    case save_failed
    then show ?thesis
      by (intro exI [of _ "[]"]) (simp add: authenticate_trace s1)
  next
    case fresh
    let ?s2 = "snd (authenticate w ?s1)"
    let ?s3 = "?s2\<lparr>trace := trace ?s2 @ [WriteFile config_cookieFilePath],
                   cookieFile := Some (toJSON w (cookieJar ?s2))\<rparr>"
    from fetchAndWrite_trace [of w ?s3] obtain evs where
      t: "trace (snd (fetchAndWrite w ?s3)) =
            trace ?s3 @ Fetch (usersRequest (getCookieString w (cookieJar ?s3) config_domain)) # evs"
      and e: "filter isLoginRequest evs = []" "WriteFile config_cookieFilePath \<notin> set evs"
        "\<forall>r. Fetch r \<notin> set evs"
      by blast
    let ?evs = "Fetch (usersRequest (getCookieString w (cookieJar ?s3) config_domain)) # evs"
    have "trace (snd (main w s)) =
        trace s @ ReadFile config_cookieFilePath #
          (authEvents w @ [WriteFile config_cookieFilePath]) @ ?evs"
      using fresh(4) t by (simp add: authenticate_trace)
    moreover have "cookieJar (snd (main w s)) = cookieJar ?s3"
      using fresh(4) by (simp add: fetchAndWrite_frame)
    ultimately show ?thesis
      using fresh(1-3) e by (intro exI [of _ ?evs]) (simp add: s1)
  qed
qed

lemma main_cookieFile:
  "cookieFile (snd (main w s)) =
     (if \<not> sessionValid w (loadedJar w s) \<and>
         fst (authenticate w (snd (loadCookies w s))) = Inr () \<and>
         writeFileOk w config_cookieFilePath
      then Some (toJSON w (cookieJar (snd (main w s)))) else cookieFile s)"
  by (cases rule: main_cases [of w s])
     (simp_all add: loadCookies_eq fetchAndWrite_frame authenticate_files)

lemma demo_cold_run:
  "main demo_w (initial demo_w None None) =
     (0, \<lparr>cookieJar = [''session=abc''], cookieFile = Some ''session=abc'',
          outputFile = Some [demo_user, \<lparr>id_field = Some ''42'', firstName = Some ''John'',
                       lastName = Some ''Doe'', email = Some ''john@doe.com''\<rparr>],
          pageCookies = [toPuppeteerCookie (demo_cookie ''session=abc'')],
          trace = [ReadFile config_cookieFilePath, Fetch loginPageRequest,
                   Fetch (loginSubmitRequest ''n0''), WriteFile config_cookieFilePath]
                  @ fetchEvents demo_w [''session=abc''] @ [WriteFile config_outputFilePath]\<rparr>)"
  by (simp add: script_defs demo_defs statement_defs config_defs)

section \<open>The output artifact\<close>

text \<open>
  Claim C1. In every run that ends with exit code 0, the users endpoint answered with a
  list, and the array written to the output file is that list followed by the one record
  scraped from the settings page, both obtained with the jar the run ends with (the jar
  \<^verbatim>\<open>fetchData\<close> used). So its length is the list's length plus one, its first
  elements are the list in its order, its last element is the scraped record, and the
  scraped record occurs once more than in the list: nothing is removed or moved, whatever
  the list's size.
\<close>

theorem output_is_list_then_current_user:
  assumes success: "fst (main w s0) = 0"
  shows "\<exists>userList. usersList w (cookieJar (snd (main w s0))) = Some userList \<and>
        (let s' = snd (main w s0);
             scraped = currentUser (settingsInputs w (cookieJar s'))
         in outputFile s' = Some (userList @ [scraped]) \<and>
            (\<exists>out. outputFile s' = Some out \<and>
                   length out = length userList + 1 \<and>
                   take (length userList) out = userList \<and>
                   last out = scraped \<and>
                   count_list out scraped = count_list userList scraped + 1))"
proof -
  let ?s' = "snd (main w s0)"
  let ?scraped = "currentUser (settingsInputs w (cookieJar ?s'))"
  from main_jar_output [OF success] obtain userList where
    list: "usersList w (cookieJar ?s') = Some userList" and
    written: "outputFile ?s' = Some (userList @ [?scraped])"
    by blast
  have "length (userList @ [?scraped]) = length userList + 1"
    "take (length userList) (userList @ [?scraped]) = userList"
    "last (userList @ [?scraped]) = ?scraped"
    "count_list (userList @ [?scraped]) ?scraped = count_list userList ?scraped + 1"
    by simp_all
  with list written show ?thesis
    unfolding Let_def by blast
qed

theorem output_is_list_then_current_user_witness:
  "fst (main demo_w (initial demo_w None None)) = 0 \<and>
   usersList demo_w [''session=abc''] = Some [demo_user] \<and>
   outputFile (snd (main demo_w (initial demo_w None None))) =
     Some ([demo_user] @
           [\<lparr>id_field = Some ''42'', firstName = Some ''John'',
             lastName = Some ''Doe'', email = Some ''john@doe.com''\<rparr>])"
proof -
  have "usersList demo_w [''session=abc''] = Some [demo_user]"
    by (simp add: demo_defs statement_defs config_defs)
  with output_is_list_then_current_user [of demo_w "initial demo_w None None"]
  show ?thesis
    by (simp add: demo_cold_run)
qed

section \<open>The session store\<close>

lemma isSessionCookie_iff:
  "isSessionCookie c \<longleftrightarrow> (\<exists>k ps ss. key c = Some k \<and> k = ps @ ''session'' @ ss)"
  by (cases "key c") (simp_all add: isSessionCookie_def includes_iff)

text \<open>
  Claim C3. \<^verbatim>\<open>hasValidSession\<close> returns true exactly when the cookies the jar gives
  for the target domain include one whose name contains the substring \<^verbatim>\<open>session\<close>.
  It returns the state as it found it: no event is added, so no request is made, and of
  each cookie only the name is read (whether an expired cookie is among those the jar gives
  is the jar's matter).
\<close>

theorem hasValidSession_iff_session_cookie:
  "hasValidSession w s =
     (Inr (\<exists>c \<in> set (getCookies w (cookieJar s) config_domain).
             \<exists>k ps ss. key c = Some k \<and> k = ps @ ''session'' @ ss), s)"
proof -
  have "sessionValid w (cookieJar s) =
        (\<exists>c \<in> set (getCookies w (cookieJar s) config_domain). isSessionCookie c)"
    by (simp add: sessionValid_def list_ex_iff)
  then show ?thesis
    by (simp add: hasValidSession_eq isSessionCookie_iff)
qed

lemma demo_session_names:
  "isSessionCookie (demo_cookie ''my-session-id=abc'')"
  "\<not> isSessionCookie (demo_cookie ''theme=session'')"
  by (simp_all add: isSessionCookie_def demo_cookie_def)

theorem hasValidSession_iff_session_cookie_witness:
  "fst (hasValidSession demo_w
          ((initial demo_w None None)\<lparr>cookieJar := [''theme=session'', ''my-session-id=abc'']\<rparr>))
     = Inr True \<and>
   fst (hasValidSession demo_w ((initial demo_w None None)\<lparr>cookieJar := [''theme=session'']\<rparr>))
     = Inr False"
proof -
  have by_name: "hasValidSession demo_w s =
      (Inr (\<exists>c \<in> set (getCookies demo_w (cookieJar s) config_domain). isSessionCookie c), s)" for s
    using hasValidSession_iff_session_cookie [of demo_w s]
    by (simp only: isSessionCookie_iff)
  have cookies: "getCookies demo_w j config_domain = map demo_cookie j" for j
    by (simp add: demo_w_def demo_world_def)
  show ?thesis
    by (simp add: by_name cookies demo_session_names)
qed

text \<open>
  Claim C8. \<^verbatim>\<open>loadCookies\<close> never raises. Its \<^verbatim>\<open>try\<close> block fails exactly
  when the session file cannot be read or its content is rejected by
  \<^verbatim>\<open>CookieJar.fromJSON\<close>; then the jar is left as it was, which at the start of a run
  is the new, empty jar, and the run carries on: its next event is a request.
\<close>

theorem loadCookies_never_raises:
  "fst (loadCookies w s) = Inr () \<and>
   ((\<exists>e. fst (loadCookies_try w s) = Inl e) \<longleftrightarrow>
      (cookieFile s = None \<or> (\<exists>t. cookieFile s = Some t \<and> fromJSON w t = None))) \<and>
   ((cookieFile s = None \<or> (\<exists>t. cookieFile s = Some t \<and> fromJSON w t = None)) \<longrightarrow>
      cookieJar (snd (loadCookies w s)) = cookieJar s) \<and>
   ((cf = None \<or> (\<exists>t. cf = Some t \<and> fromJSON w t = None)) \<longrightarrow>
      cookieJar (snd (loadCookies w (initial w cf outf))) = newCookieJar w \<and>
      (\<exists>r rest. trace (snd (main w (initial w cf outf))) =
                  ReadFile config_cookieFilePath # Fetch r # rest))"
proof (intro conjI impI)
  show "fst (loadCookies w s) = Inr ()"
    by (simp add: loadCookies_eq)
  show "(\<exists>e. fst (loadCookies_try w s) = Inl e) \<longleftrightarrow>
        (cookieFile s = None \<or> (\<exists>t. cookieFile s = Some t \<and> fromJSON w t = None))"
    by (auto simp: loadCookies_try_def emit_def Let_def split: option.splits)
  show "cookieJar (snd (loadCookies w s)) = cookieJar s"
    if "cookieFile s = None \<or> (\<exists>t. cookieFile s = Some t \<and> fromJSON w t = None)"
    using that by (auto simp: loadCookies_eq loadedJar_def)
  assume bad: "cf = None \<or> (\<exists>t. cf = Some t \<and> fromJSON w t = None)"
  then show "cookieJar (snd (loadCookies w (initial w cf outf))) = newCookieJar w"
    by (auto simp: loadCookies_eq loadedJar_def initial_def)
  let ?s0 = "initial w cf outf"
  from main_trace [of w ?s0] obtain evs where
    t: "trace (snd (main w ?s0)) =
       trace ?s0 @ ReadFile config_cookieFilePath #
         (if sessionValid w (loadedJar w ?s0) then []
          else authEvents w @
               (if fst (authenticate w (snd (loadCookies w ?s0))) = Inr ()
                then [WriteFile config_cookieFilePath] else [])) @ evs" and
    ne: "evs = [] \<longleftrightarrow>
        \<not> (sessionValid w (loadedJar w ?s0) \<or>
           fst (authenticate w (snd (loadCookies w ?s0))) = Inr () \<and>
           writeFileOk w config_cookieFilePath)" and
    shape: "evs = [] \<or>
      (\<exists>evs'. evs = Fetch (usersRequest
                 (getCookieString w (cookieJar (snd (main w ?s0))) config_domain)) # evs' \<and>
              (\<forall>r. Fetch r \<notin> set evs'))"
    by blast
  have t0: "trace ?s0 = []" by (simp add: initial_def)
  show "\<exists>r rest. trace (snd (main w ?s0)) = ReadFile config_cookieFilePath # Fetch r # rest"
  proof (cases "sessionValid w (loadedJar w ?s0)")
    case True
    with ne shape obtain r evs' where "evs = Fetch r # evs'" by blast
    with t True show ?thesis by (simp add: t0)
  next
    case False
    with t show ?thesis by (simp add: t0 authEvents_def)
  qed
qed

theorem loadCookies_never_raises_witness:
  "fst (loadCookies demo_w (initial demo_w (Some ''not a jar'') None)) = Inr () \<and>
   fst (loadCookies_try demo_w (initial demo_w (Some ''not a jar'') None)) = Inl FromJSONFailed \<and>
   fst (loadCookies_try demo_w (initial demo_w None None)) = Inl ReadFileFailed \<and>
   cookieJar (snd (loadCookies demo_w (initial demo_w (Some ''not a jar'') None))) = [] \<and>
   fst (main demo_w (initial demo_w (Some ''not a jar'') None)) = 0"
proof -
  have malformed: "fromJSON demo_w ''not a jar'' = None"
    by (simp add: demo_defs)
  have tries:
    "fst (loadCookies_try demo_w (initial demo_w (Some ''not a jar'') None)) = Inl FromJSONFailed"
    "fst (loadCookies_try demo_w (initial demo_w None None)) = Inl ReadFileFailed"
    by (simp_all add: loadCookies_try_def emit_def Let_def malformed initial_def)
  have code: "fst (main demo_w (initial demo_w (Some ''not a jar'') None)) = 0"
    by (simp add: script_defs demo_defs statement_defs config_defs)
  from loadCookies_never_raises
         [of demo_w "initial demo_w (Some ''not a jar'') None" "Some ''not a jar''" None]
       malformed tries code
  show ?thesis by (simp add: demo_w_def demo_world_def)
qed

section \<open>The user list fetcher\<close>





section \<open>The rendered-page scraper\<close>

lemma currentUser_eq:
  "currentUser inputs =
     \<lparr>id_field = Some (inputValue inputs 0), firstName = Some (inputValue inputs 1),
      lastName = Some (inputValue inputs 2), email = Some (inputValue inputs 3)\<rparr>"
  by (simp add: currentUser_def inputValue_def orEmpty_def val_def eq_def
           split: option.splits)

lemma inputValue_cong:
  assumes "map (\<lambda>e. attr e ''value'') xs = map (\<lambda>e. attr e ''value'') ys"
  shows "inputValue xs i = inputValue ys i"
proof -
  from assms have len: "length xs = length ys"
    by (rule map_eq_imp_length_eq)
  show ?thesis
  proof (cases "i < length xs")
    case True
    from arg_cong [OF assms, of "\<lambda>zs. zs ! i"] True len
    have "attr (xs ! i) ''value'' = attr (ys ! i) ''value''"
      by simp
    with True len show ?thesis by (simp add: inputValue_def)
  next
    case False
    with len show ?thesis by (simp add: inputValue_def)
  qed
qed

lemma filter_page_cookies [simp]:
  "filter isPageSetCookie (map (\<lambda>c. PageSetCookie (f c)) cs) = map (\<lambda>c. PageSetCookie (f c)) cs"
  by (induction cs) simp_all

text \<open>
  Claim C9. The translation of a jar cookie into a browser cookie keeps name, value,
  domain, path and the secure and http-only flags. An expiry date becomes its time in
  seconds: the double that JavaScript's division of the time in milliseconds by 1000
  gives, which is the quotient itself for a whole number of seconds, and otherwise the
  nearest number with a significand of 53 bits, within a relative error of \<open>2^-53\<close>.
  The expiry \<^verbatim>\<open>"Infinity"\<close> becomes the sentinel \<open>-1\<close>. A \<^verbatim>\<open>fetchData\<close> that
  returns has set exactly the translations of the jar's cookies for the target domain in
  the browser page, one \<^verbatim>\<open>page.setCookie\<close> call for each, in the jar's order.
\<close>

theorem cookie_translation:
  "name (toPuppeteerCookie c) = key c \<and>
   CookieParam.value_field (toPuppeteerCookie c) = Cookie.value_field c \<and>
   CookieParam.domain (toPuppeteerCookie c) = Cookie.domain c \<and>
   CookieParam.path (toPuppeteerCookie c) = Cookie.path c \<and>
   CookieParam.secure (toPuppeteerCookie c) = Cookie.secure c \<and>
   CookieParam.httpOnly (toPuppeteerCookie c) = Cookie.httpOnly c \<and>
   (\<forall>ms. Cookie.expires c = Date ms \<longrightarrow>
      CookieParam.expires (toPuppeteerCookie c) = div1000_double ms \<and>
      \<bar>CookieParam.expires (toPuppeteerCookie c) - of_int ms / 1000\<bar>
         \<le> \<bar>of_int ms / 1000\<bar> / 2 ^ 53 \<and>
      (\<forall>t. ms = 1000 * t \<longrightarrow> CookieParam.expires (toPuppeteerCookie c) = of_int t) \<and>
      (ms \<noteq> 0 \<and> \<bar>ms\<bar> < 1000 * 2 ^ 53 \<longrightarrow>
         (\<exists>m k. CookieParam.expires (toPuppeteerCookie c) = of_int (sgn ms * m) / 2 ^ k \<and>
                2 ^ 52 \<le> m \<and> m \<le> 2 ^ 53 \<and> k \<le> 62 \<and>
                \<bar>of_int m - of_int (\<bar>ms\<bar> * 2 ^ k) / (1000 :: rat)\<bar> \<le> 1 / 2))) \<and>
   (Cookie.expires c = Infinity \<longrightarrow> CookieParam.expires (toPuppeteerCookie c) = - 1) \<and>
   (\<forall>allData. fst (fetchData w s) = Inr allData \<longrightarrow>
      filter isPageSetCookie (drop (length (trace s)) (trace (snd (fetchData w s)))) =
        map (\<lambda>c. PageSetCookie (toPuppeteerCookie c))
            (getCookies w (cookieJar s) config_domain) \<and>
      pageCookies (snd (fetchData w s)) =
        map toPuppeteerCookie (getCookies w (cookieJar s) config_domain))"
proof -
  have fields: "name (toPuppeteerCookie c) = key c"
    "CookieParam.value_field (toPuppeteerCookie c) = Cookie.value_field c"
    "CookieParam.domain (toPuppeteerCookie c) = Cookie.domain c"
    "CookieParam.path (toPuppeteerCookie c) = Cookie.path c"
    "CookieParam.secure (toPuppeteerCookie c) = Cookie.secure c"
    "CookieParam.httpOnly (toPuppeteerCookie c) = Cookie.httpOnly c"
    by (simp_all add: toPuppeteerCookie_def)
  have expiry: "CookieParam.expires (toPuppeteerCookie c) = div1000_double ms \<and>
      \<bar>CookieParam.expires (toPuppeteerCookie c) - of_int ms / 1000\<bar>
         \<le> \<bar>of_int ms / 1000\<bar> / 2 ^ 53 \<and>
      (\<forall>t. ms = 1000 * t \<longrightarrow> CookieParam.expires (toPuppeteerCookie c) = of_int t) \<and>
      (ms \<noteq> 0 \<and> \<bar>ms\<bar> < 1000 * 2 ^ 53 \<longrightarrow>
         (\<exists>m k. CookieParam.expires (toPuppeteerCookie c) = of_int (sgn ms * m) / 2 ^ k \<and>
                2 ^ 52 \<le> m \<and> m \<le> 2 ^ 53 \<and> k \<le> 62 \<and>
                \<bar>of_int m - of_int (\<bar>ms\<bar> * 2 ^ k) / (1000 :: rat)\<bar> \<le> 1 / 2))"
    if d: "Cookie.expires c = Date ms" for ms
  proof -
    from d have e: "CookieParam.expires (toPuppeteerCookie c) = div1000_double ms"
      by (simp add: toPuppeteerCookie_def)
    show ?thesis
      unfolding e
      using div1000_double_error [of ms] div1000_double_whole div1000_double_significand [of ms]
      by (intro conjI allI impI) simp_all
  qed
  have sentinel: "Cookie.expires c = Infinity \<longrightarrow>
      CookieParam.expires (toPuppeteerCookie c) = - 1"
    by (simp add: toPuppeteerCookie_def)
  have one_by_one:
    "filter isPageSetCookie (drop (length (trace s)) (trace (snd (fetchData w s)))) =
        map (\<lambda>c. PageSetCookie (toPuppeteerCookie c))
            (getCookies w (cookieJar s) config_domain) \<and>
      pageCookies (snd (fetchData w s)) =
        map toPuppeteerCookie (getCookies w (cookieJar s) config_domain)"
    if "fst (fetchData w s) = Inr allData" for allData
    by (simp add: fetchData_done(2) [OF that] fetchEvents_def)
  from fields expiry sentinel one_by_one show ?thesis
    by (intro conjI allI impI) blast+
qed

theorem cookie_translation_witness:
  "toPuppeteerCookie
     \<lparr>key = Some ''session'', value_field = ''abc'', domain = Some ''challenge.sunvoy.com'',
      path = Some ''/'', expires = Date 1700000000500, secure = True, httpOnly = False\<rparr> =
     \<lparr>name = Some ''session'', value_field = ''abc'', domain = Some ''challenge.sunvoy.com'',
      path = Some ''/'', expires = 3400000001 / 2, secure = True, httpOnly = False\<rparr> \<and>
   CookieParam.expires (toPuppeteerCookie
     \<lparr>key = Some ''session'', value_field = ''abc'', domain = Some ''challenge.sunvoy.com'',
      path = Some ''/'', expires = Date 1700000000000, secure = True, httpOnly = False\<rparr>) =
     1700000000 \<and>
   CookieParam.expires (toPuppeteerCookie
     \<lparr>key = Some ''session'', value_field = ''abc'', domain = Some ''challenge.sunvoy.com'',
      path = Some ''/'', expires = Date 1, secure = True, httpOnly = False\<rparr>) =
     4611686018427388 / 2 ^ 62 \<and>
   CookieParam.expires (toPuppeteerCookie (demo_cookie ''session=abc'')) = - 1 \<and>
   pageCookies (snd (fetchData demo_w
       ((initial demo_w None None)\<lparr>cookieJar := [''a=1'', ''session=abc'']\<rparr>))) =
     [toPuppeteerCookie (demo_cookie ''a=1''), toPuppeteerCookie (demo_cookie ''session=abc'')]"
proof -
  let ?m = "\<lparr>key = Some ''session'', value_field = ''abc'',
             domain = Some ''challenge.sunvoy.com'', path = Some ''/'',
             expires = Date 1, secure = True, httpOnly = False\<rparr>"
  have milli: "div1000_double 1 = 4611686018427388 / 2 ^ 62"
    by code_simp
  let ?c = "\<lparr>key = Some ''session'', value_field = ''abc'',
             domain = Some ''challenge.sunvoy.com'', path = Some ''/'',
             expires = Date 1700000000500, secure = True, httpOnly = False\<rparr>"
  let ?d = "\<lparr>key = Some ''session'', value_field = ''abc'',
             domain = Some ''challenge.sunvoy.com'', path = Some ''/'',
             expires = Date 1700000000000, secure = True, httpOnly = False\<rparr>"
  let ?s = "(initial demo_w None None)\<lparr>cookieJar := [''a=1'', ''session=abc'']\<rparr>"
  have good: "fst (fetchData demo_w ?s) =
      Inr [demo_user, \<lparr>id_field = Some ''42'', firstName = Some ''John'',
                       lastName = Some ''Doe'', email = Some ''john@doe.com''\<rparr>]"
    by (simp add: script_defs demo_defs statement_defs config_defs)
  have jar: "getCookies demo_w (cookieJar ?s) config_domain =
      [demo_cookie ''a=1'', demo_cookie ''session=abc'']"
    by (simp add: demo_defs)
  have inf: "Cookie.expires (demo_cookie ''session=abc'') = Infinity"
    by (simp add: demo_cookie_def)
  have half: "div1000_double 1700000000500 = 3400000001 / 2"
    by code_simp
  have e: "CookieParam.expires (toPuppeteerCookie ?c) = 3400000001 / 2"
    using cookie_translation [of ?c demo_w ?s] half by simp
  have "toPuppeteerCookie ?c =
     \<lparr>name = Some ''session'', value_field = ''abc'', domain = Some ''challenge.sunvoy.com'',
      path = Some ''/'', expires = 3400000001 / 2, secure = True, httpOnly = False\<rparr>"
    using cookie_translation [of ?c demo_w ?s] e
    by (cases "toPuppeteerCookie ?c") simp
  moreover have "CookieParam.expires (toPuppeteerCookie ?d) = 1700000000"
    using cookie_translation [of ?d demo_w ?s] by simp
  moreover have "CookieParam.expires (toPuppeteerCookie ?m) = 4611686018427388 / 2 ^ 62"
    using cookie_translation [of ?m demo_w ?s] milli by simp
  moreover have "CookieParam.expires (toPuppeteerCookie (demo_cookie ''session=abc'')) = - 1"
    using cookie_translation [of "demo_cookie ''session=abc''" demo_w ?s] inf by simp
  moreover have "pageCookies (snd (fetchData demo_w ?s)) =
     [toPuppeteerCookie (demo_cookie ''a=1''), toPuppeteerCookie (demo_cookie ''session=abc'')]"
    using cookie_translation [of ?c demo_w ?s] good jar by simp
  ultimately show ?thesis by (intro conjI)
qed

text \<open>
  Claim C2. The scraped record holds the values of the input elements at positions 0, 1, 2
  and 3 of the selection as identifier, first name, last name and email. Only the
  \<^verbatim>\<open>value\<close> attributes in their order matter: two selections that agree on them give
  the same record, whatever names or ids the elements carry. In a successful run in which
  the users endpoint's list is the one record of the specification's example and the four
  inputs are valued 42, John, Doe and john@doe.com, the output is the two-element array of
  that example.
\<close>

theorem scrape_by_position:
  "currentUser inputs =
     \<lparr>id_field = Some (inputValue inputs 0), firstName = Some (inputValue inputs 1),
      lastName = Some (inputValue inputs 2), email = Some (inputValue inputs 3)\<rparr> \<and>
   (map (\<lambda>e. attr e ''value'') inputs = map (\<lambda>e. attr e ''value'') inputs' \<longrightarrow>
      currentUser inputs = currentUser inputs') \<and>
   (fst (main w s0) = 0 \<and>
    usersList w (cookieJar (snd (main w s0))) =
      Some [\<lparr>id_field = Some ''1'', firstName = Some ''A'', lastName = Some ''B'',
             email = Some ''a@b.com''\<rparr>] \<and>
    map (\<lambda>e. attr e ''value'') (settingsInputs w (cookieJar (snd (main w s0)))) =
      [Some ''42'', Some ''John'', Some ''Doe'', Some ''john@doe.com''] \<longrightarrow>
    outputFile (snd (main w s0)) =
      Some [\<lparr>id_field = Some ''1'', firstName = Some ''A'', lastName = Some ''B'',
              email = Some ''a@b.com''\<rparr>,
            \<lparr>id_field = Some ''42'', firstName = Some ''John'', lastName = Some ''Doe'',
              email = Some ''john@doe.com''\<rparr>])"
proof (intro conjI impI)
  show "currentUser inputs =
     \<lparr>id_field = Some (inputValue inputs 0), firstName = Some (inputValue inputs 1),
      lastName = Some (inputValue inputs 2), email = Some (inputValue inputs 3)\<rparr>"
    by (rule currentUser_eq)
next
  assume "map (\<lambda>e. attr e ''value'') inputs = map (\<lambda>e. attr e ''value'') inputs'"
  then have "inputValue inputs i = inputValue inputs' i" for i
    by (rule inputValue_cong)
  then show "currentUser inputs = currentUser inputs'"
    by (simp add: currentUser_eq)
next
  let ?j = "cookieJar (snd (main w s0))"
  assume run: "fst (main w s0) = 0 \<and>
    usersList w ?j =
      Some [\<lparr>id_field = Some ''1'', firstName = Some ''A'', lastName = Some ''B'',
             email = Some ''a@b.com''\<rparr>] \<and>
    map (\<lambda>e. attr e ''value'') (settingsInputs w ?j) =
      [Some ''42'', Some ''John'', Some ''Doe'', Some ''john@doe.com'']"
  then obtain e0 e1 e2 e3 where
    sel: "settingsInputs w ?j = [e0, e1, e2, e3]" and
    vals: "attr e0 ''value'' = Some ''42''" "attr e1 ''value'' = Some ''John''"
      "attr e2 ''value'' = Some ''Doe''" "attr e3 ''value'' = Some ''john@doe.com''"
    by (auto simp: map_eq_Cons_conv)
  have scraped: "currentUser (settingsInputs w ?j) =
      \<lparr>id_field = Some ''42'', firstName = Some ''John'', lastName = Some ''Doe'',
        email = Some ''john@doe.com''\<rparr>"
    by (simp add: currentUser_eq inputValue_def sel vals)
  from run have "fst (main w s0) = 0" by simp
  from main_jar_output [OF this] obtain userList where
    "usersList w ?j = Some userList"
    "outputFile (snd (main w s0)) = Some (userList @ [currentUser (settingsInputs w ?j)])"
    by blast
  with run scraped show "outputFile (snd (main w s0)) =
      Some [\<lparr>id_field = Some ''1'', firstName = Some ''A'', lastName = Some ''B'',
              email = Some ''a@b.com''\<rparr>,
            \<lparr>id_field = Some ''42'', firstName = Some ''John'', lastName = Some ''Doe'',
              email = Some ''john@doe.com''\<rparr>]"
    by simp
qed

theorem scrape_by_position_witness:
  "fst (main demo_w (initial demo_w None None)) = 0 \<and>
   settingsInputs demo_w [''session=abc''] =
     [input_el [(''name'', ''email''), (''value'', ''42'')],
      input_el [(''id'', ''lastName''), (''value'', ''John'')],
      input_el [(''value'', ''Doe'')],
      input_el [(''name'', ''id''), (''value'', ''john@doe.com'')]] \<and>
   outputFile (snd (main demo_w (initial demo_w None None))) =
     Some [\<lparr>id_field = Some ''1'', firstName = Some ''A'', lastName = Some ''B'',
             email = Some ''a@b.com''\<rparr>,
           \<lparr>id_field = Some ''42'', firstName = Some ''John'', lastName = Some ''Doe'',
             email = Some ''john@doe.com''\<rparr>]"
proof -
  let ?s = "initial demo_w None None"
  have code: "fst (main demo_w ?s) = 0" and jar: "cookieJar (snd (main demo_w ?s)) = [''session=abc'']"
    by (simp_all add: demo_cold_run)
  have list: "usersList demo_w [''session=abc''] =
      Some [\<lparr>id_field = Some ''1'', firstName = Some ''A'', lastName = Some ''B'',
             email = Some ''a@b.com''\<rparr>]"
    by (simp add: demo_defs statement_defs config_defs)
  have sel: "settingsInputs demo_w [''session=abc''] = demo_formInputs"
    by (simp add: settingsInputs_def demo_w_def demo_world_def nonceSelector_def)
  have vals: "map (\<lambda>e. attr e ''value'') demo_formInputs =
      [Some ''42'', Some ''John'', Some ''Doe'', Some ''john@doe.com'']"
    by (simp add: demo_formInputs_def input_el_def attr_def)
  from scrape_by_position [of demo_formInputs demo_formInputs demo_w ?s]
       code jar list sel vals
  show ?thesis by (simp add: demo_formInputs_def)
qed

text \<open>
  Claim C10. Every field of the scraped record is a defined string: the value attribute
  at its position, and the empty string when the selection has no element there or the
  element has no value attribute or an empty one. So in a successful run the last record
  of the output has no undefined field. A record of the users endpoint's list can have
  one: the run on the list \<open>[\<lparr>firstName = A\<rparr>]\<close> succeeds and writes that record,
  identifier undefined, in front of the scraped one.
\<close>

theorem scraped_fields_defined:
  "(\<forall>i. inputValue inputs i =
      (if i < length inputs \<and> attr (inputs ! i) ''value'' \<noteq> None
       then the (attr (inputs ! i) ''value'') else '''')) \<and>
   currentUser inputs =
     \<lparr>id_field = Some (inputValue inputs 0), firstName = Some (inputValue inputs 1),
      lastName = Some (inputValue inputs 2), email = Some (inputValue inputs 3)\<rparr> \<and>
   (fst (main w s0) = 0 \<longrightarrow>
      (\<exists>out. outputFile (snd (main w s0)) = Some out \<and> out \<noteq> [] \<and>
             id_field (last out) \<noteq> None \<and> firstName (last out) \<noteq> None \<and>
             lastName (last out) \<noteq> None \<and> email (last out) \<noteq> None)) \<and>
   fst (main demo_partial_w (initial demo_partial_w None None)) = 0 \<and>
   outputFile (snd (main demo_partial_w (initial demo_partial_w None None))) =
     Some [demo_partialUser, currentUser demo_formInputs] \<and>
   id_field demo_partialUser = None"
proof (intro conjI allI impI)
  fix i
  show "inputValue inputs i =
      (if i < length inputs \<and> attr (inputs ! i) ''value'' \<noteq> None
       then the (attr (inputs ! i) ''value'') else '''')"
    by (auto simp: inputValue_def split: option.splits)
next
  show "currentUser inputs =
     \<lparr>id_field = Some (inputValue inputs 0), firstName = Some (inputValue inputs 1),
      lastName = Some (inputValue inputs 2), email = Some (inputValue inputs 3)\<rparr>"
    by (rule currentUser_eq)
next
  assume "fst (main w s0) = 0"
  from main_jar_output [OF this] obtain userList where
    "outputFile (snd (main w s0)) =
     Some (userList @ [currentUser (settingsInputs w (cookieJar (snd (main w s0))))])"
    by blast
  then show "\<exists>out. outputFile (snd (main w s0)) = Some out \<and> out \<noteq> [] \<and>
             id_field (last out) \<noteq> None \<and> firstName (last out) \<noteq> None \<and>
             lastName (last out) \<noteq> None \<and> email (last out) \<noteq> None"
    by (simp add: currentUser_eq)
next
  show "fst (main demo_partial_w (initial demo_partial_w None None)) = 0"
    by (simp add: script_defs demo_defs statement_defs config_defs)
next
  show "outputFile (snd (main demo_partial_w (initial demo_partial_w None None))) =
     Some [demo_partialUser, currentUser demo_formInputs]"
    by (simp add: script_defs demo_defs statement_defs config_defs)
next
  show "id_field demo_partialUser = None"
    by (simp add: demo_partialUser_def)
qed

theorem scraped_fields_defined_witness:
  "fst (main demo_sparse_w (initial demo_sparse_w None None)) = 0 \<and>
   currentUser demo_sparseInputs =
     \<lparr>id_field = Some ''7'', firstName = Some '''', lastName = Some '''', email = Some ''''\<rparr> \<and>
   email (last (the (outputFile (snd (main demo_sparse_w (initial demo_sparse_w None None)))))) \<noteq>
     None"
proof -
  let ?s = "initial demo_sparse_w None None"
  have code: "fst (main demo_sparse_w ?s) = 0"
    by (simp add: script_defs demo_defs statement_defs config_defs)
  have vals: "inputValue demo_sparseInputs 0 = ''7''" "inputValue demo_sparseInputs 1 = ''''"
    "inputValue demo_sparseInputs 2 = ''''" "inputValue demo_sparseInputs 3 = ''''"
    by (simp_all add: inputValue_def demo_sparseInputs_def input_el_def attr_def)
  from scraped_fields_defined [of demo_sparseInputs demo_sparse_w ?s] code vals
  show ?thesis by auto
qed

section \<open>The authenticator\<close>

lemma error_names [simp]:
  "ProtocolError \<noteq> AuthenticationError" "AuthenticationError \<noteq> ProtocolError"
  "ProtocolError \<noteq> FetchFailed r" "ProtocolError \<noteq> TextFailed"
  "ProtocolError \<noteq> SetCookieRejected c"
  "AuthenticationError \<noteq> FetchFailed r" "AuthenticationError \<noteq> TextFailed"
  "AuthenticationError \<noteq> SetCookieRejected c"
  "FetchFailed r \<noteq> ProtocolError" "TextFailed \<noteq> ProtocolError"
  "SetCookieRejected c \<noteq> ProtocolError"
  "FetchFailed r \<noteq> AuthenticationError" "TextFailed \<noteq> AuthenticationError"
  "SetCookieRejected c \<noteq> AuthenticationError"
  by (simp_all add: ProtocolError_def AuthenticationError_def)

lemma authenticate_ProtocolError:
  "fst (authenticate w s) = Inl ProtocolError \<longleftrightarrow> nonceMissing w"
  by (cases rule: authenticate_cases [of w s]) (simp_all add: login_defs)

lemma authenticate_AuthenticationError:
  "fst (authenticate w s) = Inl AuthenticationError \<longleftrightarrow>
     (\<exists>n r. loginNonce w = Some n \<and> loginResponse w n = Some r \<and>
            (status r \<noteq> 302 \<or> getSetCookie r = []))"
  by (cases rule: authenticate_cases [of w s]) (auto simp: login_defs)

lemma authenticate_errors:
  assumes "fst (authenticate w s) = Inl e"
  shows "e = ProtocolError \<or> e = AuthenticationError \<or> e = FetchFailed loginPageRequest \<or>
      e = TextFailed \<or>
      (\<exists>n. loginNonce w = Some n \<and> e = FetchFailed (loginSubmitRequest n)) \<or>
      (\<exists>n r pre c post. loginNonce w = Some n \<and> loginResponse w n = Some r \<and>
         status r = 302 \<and> getSetCookie r = pre @ c # post \<and> e = SetCookieRejected c \<and>
         mergeAll w (cookieJar s) pre = Some (cookieJar (snd (authenticate w s))) \<and>
         setCookie w (cookieJar (snd (authenticate w s))) c config_domain = None)"
proof (cases rule: authenticate_cases [of w s])
  case (refused page html n r pre c post j')
  then have "loginNonce w = Some n \<and> loginResponse w n = Some r \<and>
         status r = 302 \<and> getSetCookie r = pre @ c # post \<and> e = SetCookieRejected c \<and>
         mergeAll w (cookieJar s) pre = Some (cookieJar (snd (authenticate w s))) \<and>
         setCookie w (cookieJar (snd (authenticate w s))) c config_domain = None"
    using assms by (simp add: login_defs)
  then show ?thesis by blast
qed (use assms in \<open>simp_all add: login_defs\<close>)

lemma authenticate_failed_jar:
  assumes "fst (authenticate w s) = Inl e" "\<forall>c. e \<noteq> SetCookieRejected c"
  shows "cookieJar (snd (authenticate w s)) = cookieJar s"
  using assms by (cases rule: authenticate_cases [of w s]) auto

lemma authEvents_once:
  "length (filter isLoginRequest (authEvents w)) = length (authEvents w)"
  "length (authEvents w) \<le> 2" "distinct (authEvents w)"
  using authEvents_cases [of w] by auto

text \<open>
  Claim C5, as the script has it. \<^verbatim>\<open>authenticate\<close> raises the nonce error exactly
  when the login page arrived and the value cheerio reads for its selection of the inputs
  named \<^verbatim>\<open>nonce\<close> is not a string, which is when the selection is empty or its first
  element has no \<^verbatim>\<open>value\<close> attribute; it raises the authentication error exactly when
  a nonce was read and the login submission was answered with a status other than 302 or
  without Set-Cookie header. Its other errors are those of the calls it awaits: a request
  without response, a page body that cannot be read, and a returned cookie that the jar
  refuses, the cookies before that one being in the jar by then. An error other than the
  last leaves the jar alone. A failed call has made each login request at most once, and
  a run whose session was invalid ends there with exit code 1. The call succeeds exactly
  when a nonce was read, the answer has status 302 and a Set-Cookie header and the jar
  accepts every returned cookie; the jar is then the old jar with every returned cookie
  set, in order.
\<close>

theorem authenticate_raises_iff:
  "(nonceMissing w \<longleftrightarrow>
      (\<exists>html. loginPage w = Some html \<and>
         (select w html nonceSelector = [] \<or>
          attr (hd (select w html nonceSelector)) ''value'' = None))) \<and>
   (fst (authenticate w s) = Inl ProtocolError \<longleftrightarrow> nonceMissing w) \<and>
   (fst (authenticate w s) = Inl AuthenticationError \<longleftrightarrow>
      (\<exists>n r. loginNonce w = Some n \<and> loginResponse w n = Some r \<and>
             (status r \<noteq> 302 \<or> getSetCookie r = []))) \<and>
   (\<forall>e. fst (authenticate w s) = Inl e \<longrightarrow>
      e = ProtocolError \<or> e = AuthenticationError \<or> e = FetchFailed loginPageRequest \<or>
      e = TextFailed \<or>
      (\<exists>n. loginNonce w = Some n \<and> e = FetchFailed (loginSubmitRequest n)) \<or>
      (\<exists>n r pre c post. loginNonce w = Some n \<and> loginResponse w n = Some r \<and>
         status r = 302 \<and> getSetCookie r = pre @ c # post \<and> e = SetCookieRejected c \<and>
         mergeAll w (cookieJar s) pre = Some (cookieJar (snd (authenticate w s))) \<and>
         setCookie w (cookieJar (snd (authenticate w s))) c config_domain = None)) \<and>
   (\<forall>e. fst (authenticate w s) = Inl e \<longrightarrow>
      ((\<forall>c. e \<noteq> SetCookieRejected c) \<longrightarrow> cookieJar (snd (authenticate w s)) = cookieJar s) \<and>
      (\<exists>evs. trace (snd (authenticate w s)) = trace s @ evs \<and>
             length (filter isLoginRequest evs) = length evs \<and> length evs \<le> 2 \<and> distinct evs)) \<and>
   (\<forall>e. \<not> sessionValid w (loadedJar w s0) \<and>
        fst (authenticate w (snd (loadCookies w s0))) = Inl e \<longrightarrow>
      main w s0 = (1, snd (authenticate w (snd (loadCookies w s0))))) \<and>
   (fst (authenticate w s) = Inr () \<longleftrightarrow>
      (\<exists>n r. loginNonce w = Some n \<and> loginResponse w n = Some r \<and> status r = 302 \<and>
             getSetCookie r \<noteq> [] \<and> mergeAll w (cookieJar s) (getSetCookie r) \<noteq> None)) \<and>
   (fst (authenticate w s) = Inr () \<longrightarrow>
      (\<exists>n r. loginNonce w = Some n \<and> loginResponse w n = Some r \<and>
             mergeAll w (cookieJar s) (getSetCookie r) =
               Some (cookieJar (snd (authenticate w s)))))"
proof (intro conjI allI impI)
  show "nonceMissing w \<longleftrightarrow>
      (\<exists>html. loginPage w = Some html \<and>
         (select w html nonceSelector = [] \<or>
          attr (hd (select w html nonceSelector)) ''value'' = None))"
    by (auto simp: nonceMissing_def val_def split: option.splits list.splits)
  show "fst (authenticate w s) = Inl ProtocolError \<longleftrightarrow> nonceMissing w"
    by (rule authenticate_ProtocolError)
  show "fst (authenticate w s) = Inl AuthenticationError \<longleftrightarrow>
      (\<exists>n r. loginNonce w = Some n \<and> loginResponse w n = Some r \<and>
             (status r \<noteq> 302 \<or> getSetCookie r = []))"
    by (rule authenticate_AuthenticationError)
  show "fst (authenticate w s) = Inr () \<longleftrightarrow>
      (\<exists>n r. loginNonce w = Some n \<and> loginResponse w n = Some r \<and> status r = 302 \<and>
             getSetCookie r \<noteq> [] \<and> mergeAll w (cookieJar s) (getSetCookie r) \<noteq> None)"
    by (rule authenticate_succeeds_iff)
  show "\<exists>n r. loginNonce w = Some n \<and> loginResponse w n = Some r \<and>
             mergeAll w (cookieJar s) (getSetCookie r) =
               Some (cookieJar (snd (authenticate w s)))"
    if "fst (authenticate w s) = Inr ()"
    using that by (rule authenticate_merged)
next
  fix e
  assume "fst (authenticate w s) = Inl e"
  then show "e = ProtocolError \<or> e = AuthenticationError \<or> e = FetchFailed loginPageRequest \<or>
      e = TextFailed \<or>
      (\<exists>n. loginNonce w = Some n \<and> e = FetchFailed (loginSubmitRequest n)) \<or>
      (\<exists>n r pre c post. loginNonce w = Some n \<and> loginResponse w n = Some r \<and>
         status r = 302 \<and> getSetCookie r = pre @ c # post \<and> e = SetCookieRejected c \<and>
         mergeAll w (cookieJar s) pre = Some (cookieJar (snd (authenticate w s))) \<and>
         setCookie w (cookieJar (snd (authenticate w s))) c config_domain = None)"
    by (rule authenticate_errors)
next
  fix e
  assume "fst (authenticate w s) = Inl e" "\<forall>c. e \<noteq> SetCookieRejected c"
  then show "cookieJar (snd (authenticate w s)) = cookieJar s"
    by (rule authenticate_failed_jar)
next
  fix e
  show "\<exists>evs. trace (snd (authenticate w s)) = trace s @ evs \<and>
             length (filter isLoginRequest evs) = length evs \<and> length evs \<le> 2 \<and> distinct evs"
    using authenticate_trace [of w s] authEvents_once [of w] by blast
next
  fix e
  assume a: "\<not> sessionValid w (loadedJar w s0) \<and>
        fst (authenticate w (snd (loadCookies w s0))) = Inl e"
  show "main w s0 = (1, snd (authenticate w (snd (loadCookies w s0))))"
    using a by (cases rule: main_cases [of w s0]) (simp_all add: loadCookies_eq)
qed

text \<open>
  The claim's own wording, that \<^verbatim>\<open>authenticate\<close> raises only in its cases (a) and
  (b) and that (a) is the absence of a nonce input with a string value, fails twice. When
  the login submission is answered with status 302 and the two cookies
  \<^verbatim>\<open>session=abc\<close> and \<^verbatim>\<open>bad\<close>, of which the jar refuses the second, a nonce
  was read and the answer is a redirect with Set-Cookie headers, yet the call raises, the
  first cookie already in the jar. And when the login page has two inputs named
  \<^verbatim>\<open>nonce\<close> of which only the second has a value, the call raises the nonce error.
\<close>

theorem authenticate_other_errors_counterexample:
  "fst (authenticate demo_refused_w (initial demo_refused_w None None)) =
     Inl (SetCookieRejected ''bad'') \<and>
   \<not> nonceMissing demo_refused_w \<and>
   loginNonce demo_refused_w = Some ''n0'' \<and>
   loginResponse demo_refused_w ''n0'' =
     Some \<lparr>status = 302, getSetCookie = [''session=abc'', ''bad''], text_body = Some [],
           json = None\<rparr> \<and>
   cookieJar (initial demo_refused_w None None) = [] \<and>
   cookieJar (snd (authenticate demo_refused_w (initial demo_refused_w None None))) =
     [''session=abc''] \<and>
   fst (main demo_refused_w (initial demo_refused_w None None)) = 1 \<and>
   select demo_two_nonce_w ''<form>'' nonceSelector =
     [input_el [(''name'', ''nonce'')], input_el [(''name'', ''nonce''), (''value'', ''n1'')]] \<and>
   attr (input_el [(''name'', ''nonce''), (''value'', ''n1'')]) ''value'' = Some ''n1'' \<and>
   fst (authenticate demo_two_nonce_w (initial demo_two_nonce_w None None)) = Inl ProtocolError"
  by (simp add: script_defs ProtocolError_def demo_defs statement_defs config_defs)

theorem authenticate_raises_iff_witness:
  "fst (authenticate demo_no_nonce_w (initial demo_no_nonce_w None None)) = Inl ProtocolError \<and>
   fst (authenticate demo_rejected_w (initial demo_rejected_w None None)) =
     Inl AuthenticationError \<and>
   fst (authenticate demo_no_cookie_w (initial demo_no_cookie_w None None)) =
     Inl AuthenticationError \<and>
   fst (authenticate demo_w (initial demo_w None None)) = Inr () \<and>
   cookieJar (snd (authenticate demo_w (initial demo_w None None))) = [''session=abc'']"
proof -
  let ?s1 = "initial demo_no_nonce_w None None"
  let ?s2 = "initial demo_rejected_w None None"
  let ?s3 = "initial demo_no_cookie_w None None"
  let ?s = "initial demo_w None None"
  have n1: "nonceMissing demo_no_nonce_w"
    by (simp add: demo_defs statement_defs config_defs)
  have n2: "loginNonce demo_rejected_w = Some ''n0''"
    "loginResponse demo_rejected_w ''n0'' = Some (demo_authRes\<lparr>status := 401, getSetCookie := []\<rparr>)"
    by (simp_all add: demo_defs statement_defs config_defs)
  have n3: "loginNonce demo_no_cookie_w = Some ''n0''"
    "loginResponse demo_no_cookie_w ''n0'' = Some (demo_authRes\<lparr>getSetCookie := []\<rparr>)"
    by (simp_all add: demo_defs statement_defs config_defs)
  have n4: "loginNonce demo_w = Some ''n0''"
    "loginResponse demo_w ''n0'' = Some demo_authRes"
    "status demo_authRes = 302" "getSetCookie demo_authRes = [''session=abc'']"
    "mergeAll demo_w (cookieJar ?s) [''session=abc''] = Some [''session=abc'']"
    by (simp_all add: demo_defs statement_defs config_defs)
  from authenticate_raises_iff [of demo_no_nonce_w ?s1 ?s1] n1
  have "fst (authenticate demo_no_nonce_w ?s1) = Inl ProtocolError" by simp
  moreover from authenticate_raises_iff [of demo_rejected_w ?s2 ?s2] n2
  have "fst (authenticate demo_rejected_w ?s2) = Inl AuthenticationError" by simp
  moreover from authenticate_raises_iff [of demo_no_cookie_w ?s3 ?s3] n3
  have "fst (authenticate demo_no_cookie_w ?s3) = Inl AuthenticationError" by simp
  moreover from authenticate_raises_iff [of demo_w ?s ?s] n4
  have "fst (authenticate demo_w ?s) = Inr () \<and>
        cookieJar (snd (authenticate demo_w ?s)) = [''session=abc'']" by simp
  ultimately show ?thesis by simp
qed

section \<open>The orchestrator\<close>

lemma authenticate_fails:
  assumes "nonceMissing w \<or>
    (\<exists>n r. loginNonce w = Some n \<and> loginResponse w n = Some r \<and>
           (status r \<noteq> 302 \<or> getSetCookie r = []))"
  shows "fst (authenticate w s) = Inl ProtocolError \<or>
         fst (authenticate w s) = Inl AuthenticationError"
  using assms authenticate_ProtocolError [of w s] authenticate_AuthenticationError [of w s]
  by blast

text \<open>
  Claim C4, as the script has it. A run issues requests to the login URL exactly when the
  session it loaded is invalid, and it calls for the write of the session file exactly
  when, besides, \<^verbatim>\<open>authenticate\<close> returns: a nonce was read, the login submission was
  answered with status 302 and a Set-Cookie header, and the jar accepted every returned
  cookie. The session file is, after the run, the serialization of the final jar if that
  write was called for and completed, and as it was before the run if it was not called
  for. With a
  session file that loads into a jar which gives, for the target domain, a cookie whose
  name contains \<^verbatim>\<open>session\<close>, the run issues no login request. With no session file
  (and a new jar that holds no cookie) the loaded session is invalid; and in every run
  with an invalid session that comes to an authenticated access (the request to the users
  endpoint or the browser's navigation), the events before the first such access are the
  read of the session file, the two login requests and the write of the session file, and
  the session file holds the final jar.
\<close>

theorem login_iff_session_invalid:
  "(filter isLoginRequest (trace (snd (main w (initial w cf outf)))) \<noteq> [] \<longleftrightarrow>
      \<not> sessionValid w (loadedJar w (initial w cf outf))) \<and>
   (WriteFile config_cookieFilePath \<in> set (trace (snd (main w (initial w cf outf)))) \<longleftrightarrow>
      \<not> sessionValid w (loadedJar w (initial w cf outf)) \<and>
      (\<exists>n r. loginNonce w = Some n \<and> loginResponse w n = Some r \<and> status r = 302 \<and>
             getSetCookie r \<noteq> [] \<and>
             mergeAll w (loadedJar w (initial w cf outf)) (getSetCookie r) \<noteq> None)) \<and>
   (WriteFile config_cookieFilePath \<in> set (trace (snd (main w (initial w cf outf)))) \<and>
    writeFileOk w config_cookieFilePath \<longrightarrow>
      cookieFile (snd (main w (initial w cf outf))) =
        Some (toJSON w (cookieJar (snd (main w (initial w cf outf)))))) \<and>
   (WriteFile config_cookieFilePath \<notin> set (trace (snd (main w (initial w cf outf)))) \<longrightarrow>
      cookieFile (snd (main w (initial w cf outf))) = cf) \<and>
   (\<forall>t j. cf = Some t \<and> fromJSON w t = Some j \<and>
          (\<exists>c \<in> set (getCookies w j config_domain).
             \<exists>k ps ss. key c = Some k \<and> k = ps @ ''session'' @ ss) \<longrightarrow>
      filter isLoginRequest (trace (snd (main w (initial w cf outf)))) = []) \<and>
   (cf = None \<and> getCookies w (newCookieJar w) config_domain = [] \<longrightarrow>
      \<not> sessionValid w (loadedJar w (initial w cf outf))) \<and>
   (\<not> sessionValid w (loadedJar w (initial w cf outf)) \<and>
    list_ex isAuthenticatedFetch (trace (snd (main w (initial w cf outf)))) \<longrightarrow>
      (\<exists>n. loginNonce w = Some n \<and>
           takeWhile (\<lambda>e. \<not> isAuthenticatedFetch e) (trace (snd (main w (initial w cf outf)))) =
             [ReadFile config_cookieFilePath, Fetch loginPageRequest,
              Fetch (loginSubmitRequest n), WriteFile config_cookieFilePath]) \<and>
      cookieFile (snd (main w (initial w cf outf))) =
        Some (toJSON w (cookieJar (snd (main w (initial w cf outf))))))"
proof -
  let ?s0 = "initial w cf outf"
  let ?s1 = "snd (loadCookies w ?s0)"
  let ?tr = "trace (snd (main w ?s0))"
  let ?invalid = "\<not> sessionValid w (loadedJar w ?s0)"
  let ?returned = "fst (authenticate w ?s1) = Inr ()"
  let ?accepted = "\<exists>n r. loginNonce w = Some n \<and> loginResponse w n = Some r \<and> status r = 302 \<and>
             getSetCookie r \<noteq> [] \<and>
             mergeAll w (loadedJar w ?s0) (getSetCookie r) \<noteq> None"
  have t0: "trace ?s0 = []" "cookieFile ?s0 = cf" by (simp_all add: initial_def)
  have returned: "?returned \<longleftrightarrow> ?accepted"
    by (simp add: authenticate_succeeds_iff loadCookies_eq)
  from main_trace [of w ?s0] obtain evs where
    t: "?tr = ReadFile config_cookieFilePath #
         (if sessionValid w (loadedJar w ?s0) then []
          else authEvents w @
               (if ?returned then [WriteFile config_cookieFilePath] else [])) @ evs" and
    quiet: "filter isLoginRequest evs = []" "WriteFile config_cookieFilePath \<notin> set evs" and
    ne: "evs = [] \<longleftrightarrow>
        \<not> (sessionValid w (loadedJar w ?s0) \<or>
           ?returned \<and> writeFileOk w config_cookieFilePath)" and
    shape: "evs = [] \<or>
      (\<exists>evs'. evs = Fetch (usersRequest
                 (getCookieString w (cookieJar (snd (main w ?s0))) config_domain)) # evs' \<and>
              (\<forall>r. Fetch r \<notin> set evs'))"
    unfolding t0 append_Nil by blast
  have requests: "filter isLoginRequest ?tr \<noteq> [] \<longleftrightarrow> ?invalid"
    unfolding t using quiet by simp
  have called: "WriteFile config_cookieFilePath \<in> set ?tr \<longleftrightarrow> ?invalid \<and> ?returned"
    unfolding t using quiet by simp
  have persisted: "cookieFile (snd (main w ?s0)) =
      Some (toJSON w (cookieJar (snd (main w ?s0))))"
    if "WriteFile config_cookieFilePath \<in> set ?tr \<and> writeFileOk w config_cookieFilePath"
    using that main_cookieFile [of w ?s0] unfolding called by simp
  have untouched: "cookieFile (snd (main w ?s0)) = cf"
    if "WriteFile config_cookieFilePath \<notin> set ?tr"
    using that main_cookieFile [of w ?s0] unfolding called by (auto simp: t0)
  have reuse: "filter isLoginRequest ?tr = []"
    if "cf = Some t" "fromJSON w t = Some j"
       "\<exists>c \<in> set (getCookies w j config_domain).
          \<exists>k ps ss. key c = Some k \<and> k = ps @ ''session'' @ ss" for t j
  proof -
    from that have "sessionValid w (loadedJar w ?s0)"
      by (simp add: sessionValid_def loadedJar_def initial_def list_ex_iff isSessionCookie_iff)
    with requests show ?thesis by blast
  qed
  have cold: "cf = None \<and> getCookies w (newCookieJar w) config_domain = [] \<longrightarrow> ?invalid"
    by (simp add: sessionValid_def loadedJar_def initial_def)
  have before: "(\<exists>n. loginNonce w = Some n \<and>
           takeWhile (\<lambda>e. \<not> isAuthenticatedFetch e) ?tr =
             [ReadFile config_cookieFilePath, Fetch loginPageRequest,
              Fetch (loginSubmitRequest n), WriteFile config_cookieFilePath]) \<and>
      cookieFile (snd (main w ?s0)) = Some (toJSON w (cookieJar (snd (main w ?s0))))"
    if invalid: "?invalid" and fetched: "list_ex isAuthenticatedFetch ?tr"
  proof -
    from fetched invalid have "list_ex isAuthenticatedFetch evs"
      unfolding t by (simp split: if_splits)
    then have "evs \<noteq> []" by auto
    with ne invalid have ok: "?returned" "writeFileOk w config_cookieFilePath"
      by blast+
    from \<open>evs \<noteq> []\<close> shape obtain r evs' where evs: "evs = Fetch (usersRequest r) # evs'"
      by blast
    from ok(1) returned obtain n where n: "loginNonce w = Some n"
      by blast
    then have a: "authEvents w = [Fetch loginPageRequest, Fetch (loginSubmitRequest n)]"
      by (simp add: authEvents_def)
    have "takeWhile (\<lambda>e. \<not> isAuthenticatedFetch e) ?tr =
             [ReadFile config_cookieFilePath, Fetch loginPageRequest,
              Fetch (loginSubmitRequest n), WriteFile config_cookieFilePath]"
      unfolding t using invalid ok(1) by (simp add: a evs)
    moreover have "cookieFile (snd (main w ?s0)) = Some (toJSON w (cookieJar (snd (main w ?s0))))"
      using main_cookieFile [of w ?s0] invalid ok by simp
    ultimately show ?thesis using n by blast
  qed
  show ?thesis
  proof (intro conjI allI impI)
    show "filter isLoginRequest ?tr \<noteq> [] \<longleftrightarrow> ?invalid" by (rule requests)
    show "WriteFile config_cookieFilePath \<in> set ?tr \<longleftrightarrow> ?invalid \<and> ?accepted"
      using called returned by simp
    show "cookieFile (snd (main w ?s0)) = Some (toJSON w (cookieJar (snd (main w ?s0))))"
      if "WriteFile config_cookieFilePath \<in> set ?tr \<and> writeFileOk w config_cookieFilePath"
      using that by (rule persisted)
    show "cookieFile (snd (main w ?s0)) = cf"
      if "WriteFile config_cookieFilePath \<notin> set ?tr"
      using that by (rule untouched)
    show "filter isLoginRequest ?tr = []"
      if "cf = Some t \<and> fromJSON w t = Some j \<and>
          (\<exists>c \<in> set (getCookies w j config_domain).
             \<exists>k ps ss. key c = Some k \<and> k = ps @ ''session'' @ ss)" for t j
      using that reuse [of t j] by simp
    show "?invalid" if "cf = None \<and> getCookies w (newCookieJar w) config_domain = []"
      using that cold by simp
    show "\<exists>n. loginNonce w = Some n \<and>
           takeWhile (\<lambda>e. \<not> isAuthenticatedFetch e) ?tr =
             [ReadFile config_cookieFilePath, Fetch loginPageRequest,
              Fetch (loginSubmitRequest n), WriteFile config_cookieFilePath]"
      if "?invalid \<and> list_ex isAuthenticatedFetch ?tr"
      using that before by simp
    show "cookieFile (snd (main w ?s0)) = Some (toJSON w (cookieJar (snd (main w ?s0))))"
      if "?invalid \<and> list_ex isAuthenticatedFetch ?tr"
      using that before by simp
  qed
qed

text \<open>
  The claim's own wording, that the login handshake is performed and the session persisted
  if and only if the loaded session is invalid, fails in a run without session file whose
  login submission is answered with status 401: the session is invalid and both login
  requests are made, but the session file is not written.
\<close>

theorem login_and_persist_counterexample:
  "\<not> ((filter isLoginRequest
          (trace (snd (main demo_rejected_w (initial demo_rejected_w None None)))) \<noteq> [] \<and>
        WriteFile config_cookieFilePath \<in>
          set (trace (snd (main demo_rejected_w (initial demo_rejected_w None None)))))
       \<longleftrightarrow>
       \<not> sessionValid demo_rejected_w
            (loadedJar demo_rejected_w (initial demo_rejected_w None None))) \<and>
   cookieFile (snd (main demo_rejected_w (initial demo_rejected_w None None))) = None"
proof -
  let ?s = "initial demo_rejected_w None None"
  have invalid: "\<not> sessionValid demo_rejected_w (loadedJar demo_rejected_w ?s)"
    by (simp add: sessionValid_def loadedJar_def initial_def demo_rejected_w_def demo_world_def)
  have run: "trace (snd (main demo_rejected_w ?s)) =
      [ReadFile config_cookieFilePath, Fetch loginPageRequest, Fetch (loginSubmitRequest ''n0'')]"
    "cookieFile (snd (main demo_rejected_w ?s)) = None"
    by (simp_all add: script_defs demo_defs statement_defs config_defs)
  have "WriteFile config_cookieFilePath \<notin> set (trace (snd (main demo_rejected_w ?s)))"
    unfolding run by simp
  with invalid run(2) show ?thesis by simp
qed

theorem login_iff_session_invalid_witness:
  "filter isLoginRequest (trace (snd (main demo_w (initial demo_w (Some ''session=xyz'') None)))) = [] \<and>
   fst (main demo_w (initial demo_w (Some ''session=xyz'') None)) = 0 \<and>
   takeWhile (\<lambda>e. \<not> isAuthenticatedFetch e)
     (trace (snd (main demo_w (initial demo_w None None)))) =
     [ReadFile config_cookieFilePath, Fetch loginPageRequest,
      Fetch (loginSubmitRequest ''n0''), WriteFile config_cookieFilePath] \<and>
   cookieFile (snd (main demo_w (initial demo_w None None))) = Some ''session=abc''"
proof -
  let ?warm = "initial demo_w (Some ''session=xyz'') None"
  let ?cold = "initial demo_w None None"
  have parsed: "fromJSON demo_w ''session=xyz'' = Some [''session=xyz'']"
    by (simp add: demo_defs)
  have named: "\<exists>c \<in> set (getCookies demo_w [''session=xyz''] config_domain).
      \<exists>k ps ss. key c = Some k \<and> k = ps @ ''session'' @ ss"
    unfolding isSessionCookie_iff [symmetric]
    by (simp add: demo_w_def demo_world_def isSessionCookie_def demo_cookie_def)
  have warm: "filter isLoginRequest (trace (snd (main demo_w ?warm))) = []"
    using login_iff_session_invalid [of demo_w "Some ''session=xyz''" None] parsed named
    by blast
  have code: "fst (main demo_w ?warm) = 0"
    by (simp add: script_defs demo_defs statement_defs config_defs)
  have empty: "getCookies demo_w (newCookieJar demo_w) config_domain = []"
    by (simp add: demo_w_def demo_world_def)
  have fetched: "list_ex isAuthenticatedFetch (trace (snd (main demo_w ?cold)))"
    by (simp add: demo_cold_run fetchEvents_def)
  have nonce: "loginNonce demo_w = Some ''n0''"
    by (simp add: demo_defs statement_defs config_defs)
  have jar: "toJSON demo_w (cookieJar (snd (main demo_w ?cold))) = ''session=abc''"
    by (simp add: demo_cold_run) (simp add: demo_w_def demo_world_def)
  have wr: "writeFileOk demo_w config_cookieFilePath"
    by (simp add: demo_w_def demo_world_def)
  from login_iff_session_invalid [of demo_w None None] empty fetched nonce jar wr
  have "takeWhile (\<lambda>e. \<not> isAuthenticatedFetch e) (trace (snd (main demo_w ?cold))) =
     [ReadFile config_cookieFilePath, Fetch loginPageRequest,
      Fetch (loginSubmitRequest ''n0''), WriteFile config_cookieFilePath] \<and>
     cookieFile (snd (main demo_w ?cold)) = Some ''session=abc''"
    by auto
  with warm code show ?thesis by simp
qed

text \<open>
  Claim C6, as the script has it. When the login page yields no nonce, or the response to
  the login submission has a status other than 302 or no Set-Cookie header,
  \<^verbatim>\<open>authenticate\<close> fails and leaves the jar and both files as they were; and a run
  whose loaded session was invalid then ends with exit code 1, the jar as loaded, both
  files as before the run, and no file write among its events.
\<close>

theorem failed_login_leaves_no_trace:
  "(nonceMissing w \<or>
    (\<exists>n r. loginNonce w = Some n \<and> loginResponse w n = Some r \<and>
           (status r \<noteq> 302 \<or> getSetCookie r = []))) \<longrightarrow>
   (\<exists>e. fst (authenticate w s) = Inl e) \<and>
   cookieJar (snd (authenticate w s)) = cookieJar s \<and>
   cookieFile (snd (authenticate w s)) = cookieFile s \<and>
   outputFile (snd (authenticate w s)) = outputFile s \<and>
   (\<not> sessionValid w (loadedJar w s0) \<longrightarrow>
      fst (main w s0) = 1 \<and>
      cookieJar (snd (main w s0)) = cookieJar (snd (loadCookies w s0)) \<and>
      cookieFile (snd (main w s0)) = cookieFile s0 \<and>
      outputFile (snd (main w s0)) = outputFile s0 \<and>
      (\<exists>evs. trace (snd (main w s0)) = trace s0 @ evs \<and>
             WriteFile config_outputFilePath \<notin> set evs \<and>
             WriteFile config_cookieFilePath \<notin> set evs))"
proof
  assume failed: "nonceMissing w \<or>
    (\<exists>n r. loginNonce w = Some n \<and> loginResponse w n = Some r \<and>
           (status r \<noteq> 302 \<or> getSetCookie r = []))"
  have kept: "(\<exists>e. fst (authenticate w t) = Inl e) \<and>
      cookieJar (snd (authenticate w t)) = cookieJar t" for t
  proof -
    from authenticate_fails [OF failed, of t] obtain e where
      e: "fst (authenticate w t) = Inl e" "\<forall>c. e \<noteq> SetCookieRejected c"
      by auto
    from authenticate_failed_jar [OF e] e(1) show ?thesis by blast
  qed
  have outside: "fst (main w s0) = 1 \<and>
      cookieJar (snd (main w s0)) = cookieJar (snd (loadCookies w s0)) \<and>
      cookieFile (snd (main w s0)) = cookieFile s0 \<and>
      outputFile (snd (main w s0)) = outputFile s0 \<and>
      (\<exists>evs. trace (snd (main w s0)) = trace s0 @ evs \<and>
             WriteFile config_outputFilePath \<notin> set evs \<and>
             WriteFile config_cookieFilePath \<notin> set evs)"
    if invalid: "\<not> sessionValid w (loadedJar w s0)"
  proof (cases rule: main_cases [of w s0])
    case valid
    with invalid show ?thesis by simp
  next
    case (auth_failed e)
    with kept [of "s0\<lparr>cookieJar := loadedJar w s0,
                      trace := trace s0 @ [ReadFile config_cookieFilePath]\<rparr>"]
    show ?thesis
      by (simp add: loadCookies_eq authenticate_files authenticate_trace)
  next
    case save_failed
    with kept [of "s0\<lparr>cookieJar := loadedJar w s0,
                      trace := trace s0 @ [ReadFile config_cookieFilePath]\<rparr>"]
    show ?thesis by simp
  next
    case fresh
    with kept [of "s0\<lparr>cookieJar := loadedJar w s0,
                      trace := trace s0 @ [ReadFile config_cookieFilePath]\<rparr>"]
    show ?thesis by simp
  qed
  from kept [of s] outside
  show "(\<exists>e. fst (authenticate w s) = Inl e) \<and>
   cookieJar (snd (authenticate w s)) = cookieJar s \<and>
   cookieFile (snd (authenticate w s)) = cookieFile s \<and>
   outputFile (snd (authenticate w s)) = outputFile s \<and>
   (\<not> sessionValid w (loadedJar w s0) \<longrightarrow>
      fst (main w s0) = 1 \<and>
      cookieJar (snd (main w s0)) = cookieJar (snd (loadCookies w s0)) \<and>
      cookieFile (snd (main w s0)) = cookieFile s0 \<and>
      outputFile (snd (main w s0)) = outputFile s0 \<and>
      (\<exists>evs. trace (snd (main w s0)) = trace s0 @ evs \<and>
             WriteFile config_outputFilePath \<notin> set evs \<and>
             WriteFile config_cookieFilePath \<notin> set evs))"
    by (simp add: authenticate_files)
qed

theorem failed_login_leaves_no_trace_witness:
  "main demo_rejected_w (initial demo_rejected_w (Some ''theme=dark'') (Some [demo_user])) =
     (1, (initial demo_rejected_w (Some ''theme=dark'') (Some [demo_user]))
           \<lparr>cookieJar := [''theme=dark''],
             trace := [ReadFile config_cookieFilePath, Fetch loginPageRequest,
                       Fetch (loginSubmitRequest ''n0'')]\<rparr>)"
proof -
  let ?w = demo_rejected_w
  let ?s = "initial demo_rejected_w (Some ''theme=dark'') (Some [demo_user])"
  have nonce: "loginNonce ?w = Some ''n0''"
    "loginResponse ?w ''n0'' = Some (demo_authRes\<lparr>status := 401, getSetCookie := []\<rparr>)"
    by (simp_all add: demo_defs statement_defs config_defs)
  have jar: "loadedJar ?w ?s = [''theme=dark'']"
    by (simp add: loadedJar_def demo_defs)
  have invalid: "\<not> sessionValid ?w (loadedJar ?w ?s)"
    unfolding jar
    by (simp add: sessionValid_def isSessionCookie_def demo_rejected_w_def demo_world_def
          demo_cookie_def)
  have events: "trace (snd (main ?w ?s)) =
      [ReadFile config_cookieFilePath, Fetch loginPageRequest, Fetch (loginSubmitRequest ''n0'')]"
    by (simp add: script_defs demo_defs statement_defs config_defs)
  have page: "pageCookies (snd (main ?w ?s)) = []"
    by (simp add: script_defs demo_defs statement_defs config_defs)
  from failed_login_leaves_no_trace [of ?w ?s ?s] nonce invalid
  have "fst (main ?w ?s) = 1 \<and>
      cookieJar (snd (main ?w ?s)) = cookieJar (snd (loadCookies ?w ?s)) \<and>
      cookieFile (snd (main ?w ?s)) = cookieFile ?s \<and>
      outputFile (snd (main ?w ?s)) = outputFile ?s"
    by simp
  with events page jar show ?thesis
    by (cases "main ?w ?s") (simp add: loadCookies_eq initial_def)
qed

text \<open>
  The claim's own wording takes a login response with no session cookie for a failure. The
  script does not: a 302 whose only cookie is \<^verbatim>\<open>theme=dark\<close>, a name that does not
  contain \<^verbatim>\<open>session\<close>, passes the check, the cookie is set in the jar (empty before),
  and in this world, where the users endpoint answers 200, the output file is written.
\<close>

theorem failed_login_session_cookie_counterexample:
  "loginResponse demo_theme_w ''n0'' =
     Some \<lparr>status = 302, getSetCookie = [''theme=dark''], text_body = Some [], json = None\<rparr> \<and>
   \<not> includes_str ''theme=dark'' ''session'' \<and>
   \<not> sessionValid demo_theme_w (cookieJar (snd (main demo_theme_w (initial demo_theme_w None None)))) \<and>
   cookieJar (snd (loadCookies demo_theme_w (initial demo_theme_w None None))) = [] \<and>
   cookieJar (snd (main demo_theme_w (initial demo_theme_w None None))) = [''theme=dark''] \<and>
   cookieFile (snd (main demo_theme_w (initial demo_theme_w None None))) = Some ''theme=dark'' \<and>
   outputFile (initial demo_theme_w None None) = None \<and>
   outputFile (snd (main demo_theme_w (initial demo_theme_w None None))) =
     Some [demo_user, currentUser demo_formInputs]"
  by (simp add: script_defs demo_defs statement_defs config_defs)

end
